theory Spec2Isabelle
  imports Complex_Main "HOL-Library.Word"
begin

section \<open>JavaScript values\<close>

text \<open>
  The backend is JavaScript. A value that crosses a library boundary (a parsed request
  body, a reply of the storage provider, the argument of \<^verbatim>\<open>res.json\<close>) is a
  \<open>jsval\<close>. An object keeps its properties in insertion order; reading a property that
  is not there gives \<open>Undefined\<close>. Numbers are the finite ones (a JSON document carries
  no NaN and no infinity). A string is a list of code units below 256.
\<close>

type_synonym bytes = "8 word list"

datatype jsval =
    Undefined
  | Null
  | Bool bool
  | Num rat
  | Str string
  | Arr "jsval list"
  | Obj "(string \<times> jsval) list"

type_synonym object = "(string \<times> jsval) list"

text \<open>\<^verbatim>\<open>o.k\<close> on a plain object \<open>o\<close>.\<close>

definition get_prop :: "object \<Rightarrow> string \<Rightarrow> jsval" where
  "get_prop kvs k = (case map_of kvs k of Some v \<Rightarrow> v | None \<Rightarrow> Undefined)"

text \<open>
  \<^verbatim>\<open>v?.k\<close>: \<open>Undefined\<close> when \<open>v\<close> is undefined or null. The keys read this way in the
  source (\<^verbatim>\<open>used\<close>, \<^verbatim>\<open>limit\<close>, \<^verbatim>\<open>used_percent\<close>) are no properties of a primitive or of
  an array.
\<close>

fun opt_chain :: "jsval \<Rightarrow> string \<Rightarrow> jsval" where
  "opt_chain (Obj kvs) k = get_prop kvs k"
| "opt_chain _ k = Undefined"

text \<open>The conversion to boolean that \<^verbatim>\<open>||\<close>, \<^verbatim>\<open>&&\<close>, \<^verbatim>\<open>!\<close> and \<^verbatim>\<open>if\<close> apply.\<close>

fun truthy :: "jsval \<Rightarrow> bool" where
  "truthy Undefined = False"
| "truthy Null = False"
| "truthy (Bool b) = b"
| "truthy (Num n) = (n \<noteq> 0)"
| "truthy (Str s) = (s \<noteq> [])"
| "truthy (Arr _) = True"
| "truthy (Obj _) = True"

text \<open>\<^verbatim>\<open>a || b\<close>\<close>

definition js_or :: "jsval \<Rightarrow> jsval \<Rightarrow> jsval" where
  "js_or a b = (if truthy a then a else b)"

subsection \<open>Strings\<close>

text \<open>
  \<^verbatim>\<open>String.prototype.toLowerCase\<close> on code units below 256: the letters A to Z and the
  Latin-1 capitals U+00C0 to U+00DE (U+00D7, the multiplication sign, apart) move up by 32.
\<close>

definition toLowerCase_char :: "char \<Rightarrow> char" where
  "toLowerCase_char c =
     (let n = (of_char c :: nat)
      in if (65 \<le> n \<and> n \<le> 90) \<or> (192 \<le> n \<and> n \<le> 222 \<and> n \<noteq> 215)
         then char_of (n + 32) else c)"

definition toLowerCase :: "string \<Rightarrow> string" where
  "toLowerCase s = map toLowerCase_char s"

text \<open>
  \<^verbatim>\<open>s.split(sep)\<close> for a separator of one code unit: the pieces between the separators,
  one piece at least.
\<close>

fun split :: "char \<Rightarrow> string \<Rightarrow> string list" where
  "split sep [] = [[]]"
| "split sep (c # cs) =
     (if c = sep then [] # split sep cs
      else (case split sep cs of
              [] \<Rightarrow> [[c]]
            | w # ws \<Rightarrow> (c # w) # ws))"

text \<open>\<^verbatim>\<open>xs.pop()\<close> as a value: the last element, \<open>None\<close> (undefined) on an empty array.\<close>

fun pop :: "'a list \<Rightarrow> 'a option" where
  "pop [] = None"
| "pop [x] = Some x"
| "pop (x # y # ys) = pop (y # ys)"

text \<open>\<^verbatim>\<open>xs.join(sep)\<close> on an array of strings.\<close>

fun join :: "string \<Rightarrow> string list \<Rightarrow> string" where
  "join sep [] = []"
| "join sep [x] = x"
| "join sep (x # y # ys) = x @ sep @ join sep (y # ys)"

section \<open>Errors, responses, configuration\<close>

text \<open>
  A thrown value is an object: an \<^verbatim>\<open>Error\<close> instance (name, message, stack), or the
  plain object \<^verbatim>\<open>{error: {message, http_code}}\<close> with which the provider's client
  rejects. A field that is not there is \<open>None\<close>. What the code writes to the console
  (\<^verbatim>\<open>console.error\<close>, \<^verbatim>\<open>console.warn\<close>) reaches no response and is left out.
\<close>

record provider_error =
  pe_message :: "string option"
  pe_http_code :: "int option"

record js_error =
  err_name :: "string option"
  err_message :: "string option"
  err_statusCode :: "int option"
  err_error :: "provider_error option"
  err_stack :: "string option"

text \<open>
  \<^verbatim>\<open>new Error(msg)\<close>. The stack is the text the runtime builds; its first line is kept,
  the frames after it are not modelled.
\<close>

definition new_Error :: "string \<Rightarrow> js_error" where
  "new_Error msg =
     \<lparr> err_name = Some ''Error'', err_message = Some msg, err_statusCode = None,
       err_error = None, err_stack = Some (''Error: '' @ msg) \<rparr>"

text \<open>\<^verbatim>\<open>${error.message}\<close> inside a template literal.\<close>

definition message_text :: "js_error \<Rightarrow> string" where
  "message_text e = (case err_message e of None \<Rightarrow> ''undefined'' | Some m \<Rightarrow> m)"

record response =
  status :: int
  body :: jsval

text \<open>\<^verbatim>\<open>res.status(c).json(b)\<close>, and \<^verbatim>\<open>res.json(b)\<close> whose status is 200.\<close>

definition status_json :: "int \<Rightarrow> jsval \<Rightarrow> response" where
  "status_json c b = \<lparr> status = c, body = b \<rparr>"

definition json :: "jsval \<Rightarrow> response" where
  "json b = status_json 200 b"

text \<open>A middleware either answers or hands the request on.\<close>

datatype middleware_result = Next | Respond response

text \<open>The part of \<^verbatim>\<open>app.config.js\<close> that the validators read.\<close>

record config =
  maxFileSize :: int
  allowedFormats :: "string list"

text \<open>The defaults of \<^verbatim>\<open>app.config.js\<close>, used when the environment sets neither.\<close>

definition default_config :: config where
  "default_config =
     \<lparr> maxFileSize = 10 * 1024 * 1024,
       allowedFormats = [''jpg'', ''jpeg'', ''png'', ''gif'', ''webp'', ''svg''] \<rparr>"

text \<open>One entry of \<^verbatim>\<open>req.files\<close>, as the upload middleware builds it.\<close>

record uploaded_file =
  name :: string
  data :: bytes
  size_file :: int
  mimetype :: string

text \<open>
  The request as the handlers read it: \<^verbatim>\<open>req.files\<close> (absent when the request carried
  no multipart body; one file per field name), \<^verbatim>\<open>req.body\<close> (a plain object, as the
  body parsers leave it), and \<^verbatim>\<open>req.params\<close> (strings cut from the path).
\<close>

record request =
  req_files :: "(string \<times> uploaded_file) list option"
  req_body :: object
  req_params :: "(string \<times> string) list"

section \<open>Libraries outside the repository\<close>

text \<open>
  The image library \<^verbatim>\<open>sharp\<close> builds a pipeline of operations on an input buffer and
  runs it with \<^verbatim>\<open>toBuffer()\<close>. The model keeps the operations in the order the source
  adds them.
\<close>

datatype sharp_operation =
    Resize int int string bool
  | Jpeg int bool
  | Png int int
  | Webp int

record metadata =
  width :: "int option"
  height :: "int option"
  format :: "string option"

text \<open>
  The validation library reports the first violation found as a code and a path; the
  text it renders from them is the library's.
\<close>

datatype path_segment = Key string | Index nat

datatype joi_error = Joi_error string "path_segment list"

text \<open>
  What the code takes from its runtime and its libraries without changing any state,
  as parameters: the environment variable \<^verbatim>\<open>NODE_ENV\<close>, the text of a number in a
  template literal, \<^verbatim>\<open>decodeURIComponent\<close> (which throws on a malformed escape),
  the message of a validation error, \<^verbatim>\<open>sharp(buffer).metadata()\<close> and
  \<^verbatim>\<open>toBuffer()\<close> (both may reject), and \<^verbatim>\<open>cloudinary.url\<close>.
\<close>

record platform =
  NODE_ENV :: "string option"
  number_toString :: "rat \<Rightarrow> string"
  decodeURIComponent :: "string \<Rightarrow> js_error + string"
  details_message :: "joi_error \<Rightarrow> string"
  sharp_metadata :: "bytes \<Rightarrow> js_error + metadata"
  sharp_toBuffer :: "bytes \<Rightarrow> sharp_operation list \<Rightarrow> js_error + bytes"
  cloudinary_url :: "jsval \<Rightarrow> object \<Rightarrow> jsval"

subsection \<open>Schemas of the validation library\<close>

text \<open>
  The schemas that \<^verbatim>\<open>validation.middleware.js\<close> builds for the upload options, the
  identifier and the bulk deletion, with the rules of the library (version 17) for them:
  \<^item> \<^verbatim>\<open>Joi.string()\<close> takes a string that is not empty; \<^verbatim>\<open>.max(n)\<close> bounds its length;
  \<^item> \<^verbatim>\<open>Joi.boolean()\<close> takes a boolean, and the strings \<^verbatim>\<open>true\<close> and \<^verbatim>\<open>false\<close> in any
    letter case;
  \<^item> \<^verbatim>\<open>Joi.array().items(s)\<close> takes an array whose entries are all defined and match
    \<open>s\<close>; \<^verbatim>\<open>.min(a)\<close> and \<^verbatim>\<open>.max(b)\<close> bound its length, and are checked after the items;
  \<^item> \<^verbatim>\<open>Joi.alternatives().try(s, t)\<close> takes what \<open>s\<close> or \<open>t\<close> takes; when both fail it
    reports the one complex failure if there is exactly one, \<^verbatim>\<open>alternatives.types\<close> if
    there is none, and \<^verbatim>\<open>alternatives.match\<close> otherwise;
  \<^item> \<^verbatim>\<open>Joi.object({...})\<close> checks its keys in the order written, a missing key only when
    it is \<^verbatim>\<open>required()\<close>, and then refuses the first key it does not know.
\<close>

datatype joi_schema =
    Joi_string "nat option"
  | Joi_boolean
  | Joi_array joi_schema "nat option" "nat option"
  | Joi_alternatives_try joi_schema joi_schema

datatype presence = Optional_key | Required_key

text \<open>The first error of a list of checks, in order.\<close>

fun first_error :: "joi_error option list \<Rightarrow> joi_error option" where
  "first_error [] = None"
| "first_error (None # rs) = first_error rs"
| "first_error (Some e # rs) = Some e"

text \<open>
  When every alternative fails, the library looks at the failures: one that lies
  deeper than the value itself, or whose code is not a \<^verbatim>\<open>base\<close> type mismatch, is a
  complex one.
\<close>

fun is_complex :: "path_segment list \<Rightarrow> joi_error \<Rightarrow> bool" where
  "is_complex path (Joi_error code p) =
     (length p \<noteq> length path
      \<or> (case split CHR ''.'' code of
            ty # c # _ \<Rightarrow> c \<noteq> ''base''
          | _ \<Rightarrow> True))"

fun joi_check :: "joi_schema \<Rightarrow> path_segment list \<Rightarrow> jsval \<Rightarrow> joi_error option" where
  "joi_check (Joi_string mx) path v =
     (case v of
        Str s \<Rightarrow>
          (if s = [] then Some (Joi_error ''string.empty'' path)
           else (case mx of
                   None \<Rightarrow> None
                 | Some n \<Rightarrow> if length s > n then Some (Joi_error ''string.max'' path) else None))
      | _ \<Rightarrow> Some (Joi_error ''string.base'' path))"
| "joi_check Joi_boolean path v =
     (case v of
        Bool b \<Rightarrow> None
      | Str s \<Rightarrow>
          (if toLowerCase s = ''true'' \<or> toLowerCase s = ''false'' then None
           else Some (Joi_error ''boolean.base'' path))
      | _ \<Rightarrow> Some (Joi_error ''boolean.base'' path))"
| "joi_check (Joi_array item mn mx) path v =
     (case v of
        Arr xs \<Rightarrow>
          (case first_error
                  (map (\<lambda>(i, x). if x = Undefined
                                   then Some (Joi_error ''array.sparse'' (path @ [Index i]))
                                   else joi_check item (path @ [Index i]) x)
                       (zip [0 ..< length xs] xs)) of
             Some e \<Rightarrow> Some e
           | None \<Rightarrow>
               (if (case mn of None \<Rightarrow> False | Some a \<Rightarrow> length xs < a)
                then Some (Joi_error ''array.min'' path)
                else if (case mx of None \<Rightarrow> False | Some b \<Rightarrow> length xs > b)
                then Some (Joi_error ''array.max'' path)
                else None))
      | _ \<Rightarrow> Some (Joi_error ''array.base'' path))"
| "joi_check (Joi_alternatives_try s t) path v =
     (case joi_check s path v of
        None \<Rightarrow> None
      | Some e1 \<Rightarrow>
          (case joi_check t path v of
             None \<Rightarrow> None
           | Some e2 \<Rightarrow>
               (case filter (is_complex path) [e1, e2] of
                  [] \<Rightarrow> Some (Joi_error ''alternatives.types'' path)
                | [e] \<Rightarrow> Some e
                | _ \<Rightarrow> Some (Joi_error ''alternatives.match'' path))))"

text \<open>\<^verbatim>\<open>Joi.object(keys).validate(value)\<close> on a plain object: the \<^verbatim>\<open>error\<close> it returns.\<close>

definition joi_object_validate ::
  "(string \<times> joi_schema \<times> presence) list \<Rightarrow> object \<Rightarrow> joi_error option" where
  "joi_object_validate keys v =
     first_error
       (map (\<lambda>(k, s, p).
               (case get_prop v k of
                  Undefined \<Rightarrow>
                    (if p = Required_key then Some (Joi_error ''any.required'' [Key k]) else None)
                | x \<Rightarrow> joi_check s [Key k] x))
            keys
        @ map (\<lambda>(k, x). if k \<in> set (map fst keys) then None
                         else Some (Joi_error ''object.unknown'' [Key k]))
              v)"

section \<open>validation.middleware.js\<close>

definition validMimetypes :: "string list" where
  "validMimetypes =
     [''image/jpeg'', ''image/jpg'', ''image/png'', ''image/gif'', ''image/webp'',
      ''image/svg+xml'']"

text \<open>\<^verbatim>\<open>{success: false, error: msg}\<close>\<close>

definition failure :: "jsval \<Rightarrow> jsval" where
  "failure msg = Obj [(''success'', Bool False), (''error'', msg)]"

text \<open>
  \<^verbatim>\<open>req.files.image\<close>, undefined when \<^verbatim>\<open>req.files\<close> is or when it has no such entry.
\<close>

definition files_image :: "request \<Rightarrow> uploaded_file option" where
  "files_image req = (case req_files req of None \<Rightarrow> None | Some fs \<Rightarrow> map_of fs ''image'')"

text \<open>
  \<^verbatim>\<open>validateFileUpload\<close>. The body of its \<^verbatim>\<open>try\<close> can throw at one place only, the call
  of \<^verbatim>\<open>toLowerCase\<close> on what \<^verbatim>\<open>pop()\<close> returned; the \<^verbatim>\<open>catch\<close> answers 500 there.
\<close>

definition validateFileUpload :: "config \<Rightarrow> platform \<Rightarrow> request \<Rightarrow> middleware_result" where
  "validateFileUpload cfg pf req =
     (case files_image req of
        None \<Rightarrow>
          Respond (status_json 400 (failure (Str
            ''No image file provided. Please upload a file with the field name \"image\"'')))
      | Some file \<Rightarrow>
          if size_file file > maxFileSize cfg then
            Respond (status_json 400 (failure (Str
              (''File size exceeds limit. Maximum size: ''
               @ number_toString pf (of_int (maxFileSize cfg) / 1024 / 1024) @ ''MB''))))
          else
            (case pop (split CHR ''.'' (name file)) of
               None \<Rightarrow> Respond (status_json 500 (failure (Str ''File validation failed'')))
             | Some ext \<Rightarrow>
                 let fileExtension = toLowerCase ext in
                 if fileExtension \<notin> set (allowedFormats cfg) then
                   Respond (status_json 400 (failure (Str
                     (''Invalid file format. Allowed formats: ''
                      @ join '', '' (allowedFormats cfg)))))
                 else if mimetype file \<notin> set validMimetypes then
                   Respond (status_json 400 (failure (Str
                     ''Invalid file type. Please upload an image file.'')))
                 else Next))"

definition upload_options_schema :: "(string \<times> joi_schema \<times> presence) list" where
  "upload_options_schema =
     [(''folder'', Joi_string (Some 100), Optional_key),
      (''publicId'', Joi_string (Some 100), Optional_key),
      (''tags'', Joi_alternatives_try (Joi_string None) (Joi_array (Joi_string None) None None),
         Optional_key),
      (''optimize'', Joi_boolean, Optional_key)]"

definition validateUploadOptions :: "platform \<Rightarrow> request \<Rightarrow> middleware_result" where
  "validateUploadOptions pf req =
     (case joi_object_validate upload_options_schema (req_body req) of
        Some error \<Rightarrow> Respond (status_json 400 (failure (Str (details_message pf error))))
      | None \<Rightarrow> Next)"

text \<open>\<^verbatim>\<open>req.params\<close> as the object the schema sees.\<close>

definition params_object :: "request \<Rightarrow> object" where
  "params_object req = map (\<lambda>(k, v). (k, Str v)) (req_params req)"

definition validatePublicId :: "request \<Rightarrow> middleware_result" where
  "validatePublicId req =
     (case joi_object_validate [(''publicId'', Joi_string None, Required_key)]
             (params_object req) of
        Some error \<Rightarrow> Respond (status_json 400 (failure (Str ''Invalid public ID'')))
      | None \<Rightarrow> Next)"

definition bulk_delete_schema :: "(string \<times> joi_schema \<times> presence) list" where
  "bulk_delete_schema =
     [(''publicIds'', Joi_array (Joi_string None) (Some 1) (Some 100), Required_key)]"

definition validateBulkDelete :: "platform \<Rightarrow> request \<Rightarrow> middleware_result" where
  "validateBulkDelete pf req =
     (case joi_object_validate bulk_delete_schema (req_body req) of
        Some error \<Rightarrow> Respond (status_json 400 (failure (Str (details_message pf error))))
      | None \<Rightarrow> Next)"

section \<open>The storage provider\<close>

text \<open>
  Every call of the provider's client is a network round trip that reads and changes
  the provider's state. The provider is a parameter: a function from the call and the
  state before it to the reply (the object the promise resolves with, or the value it
  rejects with) and the state after it. The calls made are recorded in order.
\<close>

datatype call =
    Uploader_upload_stream object bytes
  | Api_resource string object
  | Uploader_destroy string
  | Api_usage
  | Api_delete_resources "jsval list"

type_synonym 's cloudinary = "call \<Rightarrow> 's \<Rightarrow> (js_error + object) \<times> 's"

record 's world =
  provider :: 's
  calls :: "call list"

definition invoke :: "'s cloudinary \<Rightarrow> call \<Rightarrow> 's world \<Rightarrow> (js_error + object) \<times> 's world" where
  "invoke cl c w =
     (case cl c (provider w) of
        (reply, s') \<Rightarrow> (reply, \<lparr> provider = s', calls = calls w @ [c] \<rparr>))"

section \<open>services/image.service.js\<close>

text \<open>\<^verbatim>\<open>a > n\<close> for a number that may be undefined: false when it is.\<close>

definition greater_than :: "int option \<Rightarrow> int \<Rightarrow> bool" where
  "greater_than a n = (case a of None \<Rightarrow> False | Some x \<Rightarrow> x > n)"

text \<open>The body of the \<^verbatim>\<open>try\<close> of \<^verbatim>\<open>optimizeImage\<close>: \<open>Inl\<close> is what it throws.\<close>

definition optimizeImage_try :: "platform \<Rightarrow> bytes \<Rightarrow> string \<Rightarrow> js_error + bytes" where
  "optimizeImage_try pf buffer mime =
     (if mime = ''image/svg+xml'' then Inr buffer
      else
        (case sharp_metadata pf buffer of
           Inl e \<Rightarrow> Inl e
         | Inr md \<Rightarrow>
             let sharpInstance = [];
                 sharpInstance =
                   (if greater_than (width md) 4096 \<or> greater_than (height md) 4096
                    then sharpInstance @ [Resize 4096 4096 ''inside'' True]
                    else sharpInstance);
                 sharpInstance =
                   (if format md = Some ''jpeg'' \<or> format md = Some ''jpg''
                    then sharpInstance @ [Jpeg 85 True]
                    else if format md = Some ''png''
                    then sharpInstance @ [Png 85 9]
                    else if format md = Some ''webp''
                    then sharpInstance @ [Webp 85]
                    else sharpInstance)
             in sharp_toBuffer pf buffer sharpInstance))"

text \<open>\<^verbatim>\<open>optimizeImage\<close>: the \<^verbatim>\<open>catch\<close> returns the buffer it was given.\<close>

definition optimizeImage :: "platform \<Rightarrow> bytes \<Rightarrow> string \<Rightarrow> js_error + bytes" where
  "optimizeImage pf buffer mime =
     (case optimizeImage_try pf buffer mime of
        Inl error \<Rightarrow> Inr buffer
      | Inr optimized \<Rightarrow> Inr optimized)"

definition getThumbnailUrl :: "platform \<Rightarrow> jsval \<Rightarrow> jsval \<Rightarrow> jsval" where
  "getThumbnailUrl pf publicId fmt =
     cloudinary_url pf publicId
       [(''transformation'',
           Arr [Obj [(''width'', Num 200), (''height'', Num 200), (''crop'', Str ''fill'')],
                Obj [(''quality'', Str ''auto''), (''fetch_format'', Str ''auto'')]]),
        (''format'', fmt)]"

definition getTransformedUrl :: "platform \<Rightarrow> jsval \<Rightarrow> jsval \<Rightarrow> jsval" where
  "getTransformedUrl pf publicId transformation =
     cloudinary_url pf publicId [(''transformation'', transformation)]"

text \<open>
  The first argument of \<^verbatim>\<open>upload_stream\<close>, built from the options of \<^verbatim>\<open>uploadImage\<close>.
\<close>

definition upload_params :: "object \<Rightarrow> object" where
  "upload_params options =
     [(''folder'', js_or (get_prop options ''folder'') (Str ''uploads'')),
      (''public_id'', get_prop options ''publicId''),
      (''transformation'', get_prop options ''transformation''),
      (''resource_type'', Str ''auto''),
      (''tags'', js_or (get_prop options ''tags'') (Arr [])),
      (''context'', get_prop options ''context'')]"

text \<open>The body of the \<^verbatim>\<open>try\<close> of \<^verbatim>\<open>uploadImage\<close>.\<close>

definition uploadImage_try ::
  "'s cloudinary \<Rightarrow> platform \<Rightarrow> uploaded_file option \<Rightarrow> object \<Rightarrow> 's world
     \<Rightarrow> (js_error + jsval) \<times> 's world" where
  "uploadImage_try cl pf file options w =
     (case file of
        None \<Rightarrow> (Inl (new_Error ''No file provided''), w)
      | Some f \<Rightarrow>
          (case (if get_prop options ''optimize'' \<noteq> Bool False
                 then optimizeImage pf (data f) (mimetype f)
                 else Inr (data f)) of
             Inl e \<Rightarrow> (Inl e, w)
           | Inr buffer \<Rightarrow>
               (case invoke cl (Uploader_upload_stream (upload_params options) buffer) w of
                  (Inl error, w') \<Rightarrow> (Inl error, w')
                | (Inr result, w') \<Rightarrow>
                    (Inr (Obj
                       [(''success'', Bool True),
                        (''data'', Obj
                           [(''publicId'', get_prop result ''public_id''),
                            (''url'', get_prop result ''secure_url''),
                            (''format'', get_prop result ''format''),
                            (''width'', get_prop result ''width''),
                            (''height'', get_prop result ''height''),
                            (''bytes'', get_prop result ''bytes''),
                            (''createdAt'', get_prop result ''created_at''),
                            (''resourceType'', get_prop result ''resource_type''),
                            (''type'', get_prop result ''type''),
                            (''thumbnail'',
                               getThumbnailUrl pf (get_prop result ''public_id'')
                                 (get_prop result ''format''))])]), w'))))"

definition uploadImage ::
  "'s cloudinary \<Rightarrow> platform \<Rightarrow> uploaded_file option \<Rightarrow> object \<Rightarrow> 's world
     \<Rightarrow> (js_error + jsval) \<times> 's world" where
  "uploadImage cl pf file options w =
     (case uploadImage_try cl pf file options w of
        (Inl error, w') \<Rightarrow> (Inl (new_Error (''Image upload failed: '' @ message_text error)), w')
      | (Inr result, w') \<Rightarrow> (Inr result, w'))"

text \<open>\<^verbatim>\<open>error.error?.http_code === 404\<close>\<close>

definition http_code_is_404 :: "js_error \<Rightarrow> bool" where
  "http_code_is_404 error =
     (case err_error error of None \<Rightarrow> False | Some pe \<Rightarrow> pe_http_code pe = Some 404)"

definition getImage ::
  "'s cloudinary \<Rightarrow> platform \<Rightarrow> string \<Rightarrow> object \<Rightarrow> 's world \<Rightarrow> (js_error + jsval) \<times> 's world" where
  "getImage cl pf publicId options w =
     (case invoke cl
             (Api_resource publicId
                [(''resource_type'', js_or (get_prop options ''resourceType'') (Str ''image''))]) w of
        (Inr resource, w') \<Rightarrow>
          (Inr (Obj
             [(''success'', Bool True),
              (''data'', Obj
                 [(''publicId'', get_prop resource ''public_id''),
                  (''url'', get_prop resource ''secure_url''),
                  (''format'', get_prop resource ''format''),
                  (''width'', get_prop resource ''width''),
                  (''height'', get_prop resource ''height''),
                  (''bytes'', get_prop resource ''bytes''),
                  (''createdAt'', get_prop resource ''created_at''),
                  (''resourceType'', get_prop resource ''resource_type''),
                  (''type'', get_prop resource ''type''),
                  (''thumbnail'',
                     getThumbnailUrl pf (get_prop resource ''public_id'')
                       (get_prop resource ''format'')),
                  (''transformedUrl'',
                     if truthy (get_prop options ''transformation'')
                     then getTransformedUrl pf (Str publicId) (get_prop options ''transformation'')
                     else get_prop resource ''secure_url'')])]), w')
      | (Inl error, w') \<Rightarrow>
          (if http_code_is_404 error then Inl (new_Error ''Image not found'')
           else Inl (new_Error (''Failed to retrieve image: '' @ message_text error)), w'))"

definition deleteImage ::
  "'s cloudinary \<Rightarrow> string \<Rightarrow> 's world \<Rightarrow> (js_error + jsval) \<times> 's world" where
  "deleteImage cl publicId w =
     (case invoke cl (Uploader_destroy publicId) w of
        (Inl error, w') \<Rightarrow>
          (Inl (new_Error (''Image deletion failed: '' @ message_text error)), w')
      | (Inr result, w') \<Rightarrow>
          (if get_prop result ''result'' = Str ''ok''
              \<or> get_prop result ''result'' = Str ''not found''
           then Inr (Obj
                  [(''success'', Bool True),
                   (''message'',
                      if get_prop result ''result'' = Str ''ok''
                      then Str ''Image deleted successfully''
                      else Str ''Image not found''),
                   (''publicId'', Str publicId)])
           else Inl (new_Error
                  (''Image deletion failed: '' @ message_text (new_Error ''Deletion failed''))),
           w'))"

definition getStats :: "'s cloudinary \<Rightarrow> 's world \<Rightarrow> (js_error + jsval) \<times> 's world" where
  "getStats cl w =
     (case invoke cl Api_usage w of
        (Inl error, w') \<Rightarrow>
          (Inl (new_Error (''Failed to get statistics: '' @ message_text error)), w')
      | (Inr usage, w') \<Rightarrow>
          (Inr (Obj
             [(''success'', Bool True),
              (''data'', Obj
                 [(''used'', Obj
                     [(''credits'', js_or (opt_chain (get_prop usage ''credits'') ''used'') (Num 0)),
                      (''storage'', js_or (opt_chain (get_prop usage ''storage'') ''used'') (Num 0)),
                      (''bandwidth'',
                         js_or (opt_chain (get_prop usage ''bandwidth'') ''used'') (Num 0)),
                      (''transformations'',
                         js_or (opt_chain (get_prop usage ''transformations'') ''used'') (Num 0))]),
                  (''limit'', Obj
                     [(''credits'', js_or (opt_chain (get_prop usage ''credits'') ''limit'') (Num 0)),
                      (''storage'', js_or (opt_chain (get_prop usage ''storage'') ''limit'') (Num 0)),
                      (''bandwidth'',
                         js_or (opt_chain (get_prop usage ''bandwidth'') ''limit'') (Num 0)),
                      (''transformations'',
                         js_or (opt_chain (get_prop usage ''transformations'') ''limit'') (Num 0))]),
                  (''percentage'', Obj
                     [(''credits'',
                         js_or (opt_chain (get_prop usage ''credits'') ''used_percent'') (Num 0)),
                      (''storage'',
                         js_or (opt_chain (get_prop usage ''storage'') ''used_percent'') (Num 0)),
                      (''bandwidth'',
                         js_or (opt_chain (get_prop usage ''bandwidth'') ''used_percent'')
                           (Num 0))])])]), w'))"

text \<open>
  \<^verbatim>\<open>new TypeError(msg)\<close>, and \<^verbatim>\<open>Object.keys(v).length\<close>, which throws one on undefined
  and null.
\<close>

definition new_TypeError :: "string \<Rightarrow> js_error" where
  "new_TypeError msg =
     \<lparr> err_name = Some ''TypeError'', err_message = Some msg, err_statusCode = None,
       err_error = None, err_stack = Some (''TypeError: '' @ msg) \<rparr>"

fun object_keys_length :: "jsval \<Rightarrow> js_error + nat" where
  "object_keys_length Undefined = Inl (new_TypeError ''Cannot convert undefined or null to object'')"
| "object_keys_length Null = Inl (new_TypeError ''Cannot convert undefined or null to object'')"
| "object_keys_length (Obj kvs) = Inr (length (remdups (map fst kvs)))"
| "object_keys_length (Arr xs) = Inr (length xs)"
| "object_keys_length (Str s) = Inr (length s)"
| "object_keys_length (Num n) = Inr 0"
| "object_keys_length (Bool b) = Inr 0"

text \<open>The body of the \<^verbatim>\<open>try\<close> of \<^verbatim>\<open>bulkDelete\<close>.\<close>

definition bulkDelete_try ::
  "'s cloudinary \<Rightarrow> jsval \<Rightarrow> 's world \<Rightarrow> (js_error + jsval) \<times> 's world" where
  "bulkDelete_try cl publicIds w =
     (case publicIds of
        Arr ids \<Rightarrow>
          (if length ids = 0 then (Inl (new_Error ''Invalid public IDs array''), w)
           else
             (case invoke cl (Api_delete_resources ids) w of
                (Inl error, w') \<Rightarrow> (Inl error, w')
              | (Inr result, w') \<Rightarrow>
                  (case object_keys_length (get_prop result ''deleted'') of
                     Inl error \<Rightarrow> (Inl error, w')
                   | Inr n \<Rightarrow>
                       (Inr (Obj
                          [(''success'', Bool True),
                           (''data'', Obj
                              [(''deleted'', get_prop result ''deleted''),
                               (''deletedCount'', Num (of_nat n)),
                               (''partial'', get_prop result ''partial'')])]), w'))))
      | _ \<Rightarrow> (Inl (new_Error ''Invalid public IDs array''), w))"

definition bulkDelete ::
  "'s cloudinary \<Rightarrow> jsval \<Rightarrow> 's world \<Rightarrow> (js_error + jsval) \<times> 's world" where
  "bulkDelete cl publicIds w =
     (case bulkDelete_try cl publicIds w of
        (Inl error, w') \<Rightarrow> (Inl (new_Error (''Bulk deletion failed: '' @ message_text error)), w')
      | (Inr result, w') \<Rightarrow> (Inr result, w'))"

section \<open>error.middleware.js\<close>

text \<open>A string that may be undefined, as a value.\<close>

definition string_or_undefined :: "string option \<Rightarrow> jsval" where
  "string_or_undefined s = (case s of None \<Rightarrow> Undefined | Some t \<Rightarrow> Str t)"

text \<open>\<^verbatim>\<open>c || 500\<close> for a number that may be undefined.\<close>

definition or_500 :: "int option \<Rightarrow> int" where
  "or_500 c = (case c of None \<Rightarrow> 500 | Some n \<Rightarrow> if n \<noteq> 0 then n else 500)"

text \<open>\<^verbatim>\<open>err.error && err.error.message\<close> as a condition.\<close>

definition has_provider_message :: "js_error \<Rightarrow> bool" where
  "has_provider_message err =
     (case err_error err of
        None \<Rightarrow> False
      | Some pe \<Rightarrow> (case pe_message pe of None \<Rightarrow> False | Some m \<Rightarrow> m \<noteq> []))"

text \<open>
  \<^verbatim>\<open>errorHandler\<close>: the status and the message start from the error's own fields and
  are overwritten by each test that applies, in the order of the source.
\<close>

definition errorHandler :: "platform \<Rightarrow> js_error \<Rightarrow> response" where
  "errorHandler pf err =
     (let statusCode = or_500 (err_statusCode err);
          message = js_or (string_or_undefined (err_message err)) (Str ''Internal server error'');
          (statusCode, message) =
            (if err_name err = Some ''ValidationError''
             then (400, string_or_undefined (err_message err))
             else (statusCode, message));
          (statusCode, message) =
            (if err_name err = Some ''UnauthorizedError''
             then (401, Str ''Unauthorized access'')
             else (statusCode, message));
          (statusCode, message) =
            (if err_name err = Some ''MulterError''
             then (400, Str (''File upload error: '' @ message_text err))
             else (statusCode, message));
          (statusCode, message) =
            (if has_provider_message err
             then (case err_error err of
                     None \<Rightarrow> (statusCode, message)
                   | Some pe \<Rightarrow> (or_500 (pe_http_code pe), string_or_undefined (pe_message pe)))
             else (statusCode, message))
      in status_json statusCode
           (Obj ([(''success'', Bool False), (''error'', message)]
                 @ (if NODE_ENV pf = Some ''development''
                    then [(''stack'', string_or_undefined (err_stack err))]
                    else []))))"

text \<open>
  \<^verbatim>\<open>asyncHandler\<close>: what the handler throws goes to \<^verbatim>\<open>next\<close>, and from there to
  \<^verbatim>\<open>errorHandler\<close>, the only error middleware that \<^verbatim>\<open>server.js\<close> installs.
\<close>

definition asyncHandler ::
  "platform \<Rightarrow> (js_error + response) \<times> 's world \<Rightarrow> response \<times> 's world" where
  "asyncHandler pf r =
     (case r of
        (Inl err, w) \<Rightarrow> (errorHandler pf err, w)
      | (Inr res, w) \<Rightarrow> (res, w))"

section \<open>routes/image.routes.js\<close>

text \<open>The \<^verbatim>\<open>options\<close> object that the upload handler builds from \<^verbatim>\<open>req.body\<close>.\<close>

definition upload_options :: "object \<Rightarrow> object" where
  "upload_options b =
     [(''folder'', get_prop b ''folder''),
      (''publicId'', get_prop b ''publicId''),
      (''tags'',
         if truthy (get_prop b ''tags'')
         then (case get_prop b ''tags'' of Arr ts \<Rightarrow> Arr ts | t \<Rightarrow> Arr [t])
         else Arr []),
      (''optimize'', Bool (get_prop b ''optimize'' \<noteq> Str ''false''))]"

text \<open>
  The handler of \<^verbatim>\<open>POST /upload\<close>. Reading \<^verbatim>\<open>req.files.image\<close> throws when
  \<^verbatim>\<open>req.files\<close> is undefined.
\<close>

definition upload_handler ::
  "'s cloudinary \<Rightarrow> platform \<Rightarrow> request \<Rightarrow> 's world \<Rightarrow> (js_error + response) \<times> 's world" where
  "upload_handler cl pf req w =
     (case req_files req of
        None \<Rightarrow>
          (Inl (new_TypeError ''Cannot read properties of undefined (reading 'image')''), w)
      | Some fs \<Rightarrow>
          (case uploadImage cl pf (map_of fs ''image'') (upload_options (req_body req)) w of
             (Inl err, w') \<Rightarrow> (Inl err, w')
           | (Inr result, w') \<Rightarrow> (Inr (status_json 201 result), w')))"

definition post_upload ::
  "config \<Rightarrow> 's cloudinary \<Rightarrow> platform \<Rightarrow> request \<Rightarrow> 's world \<Rightarrow> response \<times> 's world" where
  "post_upload cfg cl pf req w =
     (case validateFileUpload cfg pf req of
        Respond res \<Rightarrow> (res, w)
      | Next \<Rightarrow>
          (case validateUploadOptions pf req of
             Respond res \<Rightarrow> (res, w)
           | Next \<Rightarrow> asyncHandler pf (upload_handler cl pf req w)))"

text \<open>
  \<^verbatim>\<open>decodeURIComponent(req.params.publicId)\<close>; an undefined argument is converted to
  the string \<^verbatim>\<open>undefined\<close> first.
\<close>

definition decoded_publicId :: "platform \<Rightarrow> request \<Rightarrow> js_error + string" where
  "decoded_publicId pf req =
     decodeURIComponent pf
       (case map_of (req_params req) ''publicId'' of None \<Rightarrow> ''undefined'' | Some s \<Rightarrow> s)"

definition get_image_handler ::
  "'s cloudinary \<Rightarrow> platform \<Rightarrow> request \<Rightarrow> 's world \<Rightarrow> (js_error + response) \<times> 's world" where
  "get_image_handler cl pf req w =
     (case decoded_publicId pf req of
        Inl err \<Rightarrow> (Inl err, w)
      | Inr publicId \<Rightarrow>
          (case getImage cl pf publicId [] w of
             (Inl err, w') \<Rightarrow> (Inl err, w')
           | (Inr result, w') \<Rightarrow> (Inr (json result), w')))"

definition get_image ::
  "'s cloudinary \<Rightarrow> platform \<Rightarrow> request \<Rightarrow> 's world \<Rightarrow> response \<times> 's world" where
  "get_image cl pf req w =
     (case validatePublicId req of
        Respond res \<Rightarrow> (res, w)
      | Next \<Rightarrow> asyncHandler pf (get_image_handler cl pf req w))"

definition delete_image_handler ::
  "'s cloudinary \<Rightarrow> platform \<Rightarrow> request \<Rightarrow> 's world \<Rightarrow> (js_error + response) \<times> 's world" where
  "delete_image_handler cl pf req w =
     (case decoded_publicId pf req of
        Inl err \<Rightarrow> (Inl err, w)
      | Inr publicId \<Rightarrow>
          (case deleteImage cl publicId w of
             (Inl err, w') \<Rightarrow> (Inl err, w')
           | (Inr result, w') \<Rightarrow> (Inr (json result), w')))"

definition delete_image ::
  "'s cloudinary \<Rightarrow> platform \<Rightarrow> request \<Rightarrow> 's world \<Rightarrow> response \<times> 's world" where
  "delete_image cl pf req w =
     (case validatePublicId req of
        Respond res \<Rightarrow> (res, w)
      | Next \<Rightarrow> asyncHandler pf (delete_image_handler cl pf req w))"

definition bulk_delete_handler ::
  "'s cloudinary \<Rightarrow> request \<Rightarrow> 's world \<Rightarrow> (js_error + response) \<times> 's world" where
  "bulk_delete_handler cl req w =
     (case bulkDelete cl (get_prop (req_body req) ''publicIds'') w of
        (Inl err, w') \<Rightarrow> (Inl err, w')
      | (Inr result, w') \<Rightarrow> (Inr (json result), w'))"

definition post_bulk_delete ::
  "'s cloudinary \<Rightarrow> platform \<Rightarrow> request \<Rightarrow> 's world \<Rightarrow> response \<times> 's world" where
  "post_bulk_delete cl pf req w =
     (case validateBulkDelete pf req of
        Respond res \<Rightarrow> (res, w)
      | Next \<Rightarrow> asyncHandler pf (bulk_delete_handler cl req w))"

definition get_stats_usage ::
  "'s cloudinary \<Rightarrow> platform \<Rightarrow> 's world \<Rightarrow> response \<times> 's world" where
  "get_stats_usage cl pf w =
     asyncHandler pf
       (case getStats cl w of
          (Inl err, w') \<Rightarrow> (Inl err, w')
        | (Inr result, w') \<Rightarrow> (Inr (json result), w'))"

section \<open>server.js\<close>

text \<open>
  Before the routes, \<^verbatim>\<open>server.js\<close> installs the upload middleware with
  \<^verbatim>\<open>limits: {fileSize: config.maxFileSize}\<close> and \<^verbatim>\<open>abortOnLimit: true\<close>. The middleware
  reads a multipart body part by part. It tests the limit on the data of a file as it
  arrives, so a part without data is never over it; at the first part over the limit
  it ends the request itself, with status 413 and its default text as a plain body,
  and nothing behind it runs. Otherwise it sets \<^verbatim>\<open>req.files\<close> (left empty when the
  body has no file; each file with its data and the length of the data as its size)
  and \<^verbatim>\<open>req.body\<close>, and hands the request on. A body that is not multipart is handed
  on with no \<^verbatim>\<open>req.files\<close>. The requests are those that reach this middleware: the
  CORS check and the rate limiter in front of it are not modelled.
\<close>

record file_part =
  fieldname :: string
  filename :: string
  part_mimetype :: string
  part_data :: bytes

record multipart_request =
  file_parts :: "file_part list option"
  form_fields :: object

datatype parsed = Aborted response | Parsed request

definition over_limit :: "config \<Rightarrow> file_part \<Rightarrow> bool" where
  "over_limit cfg p = (part_data p \<noteq> [] \<and> int (length (part_data p)) > maxFileSize cfg)"

definition file_of_part :: "file_part \<Rightarrow> uploaded_file" where
  "file_of_part p =
     \<lparr> name = filename p, data = part_data p, size_file = int (length (part_data p)),
       mimetype = part_mimetype p \<rparr>"

definition fileUpload :: "config \<Rightarrow> multipart_request \<Rightarrow> parsed" where
  "fileUpload cfg r =
     (case file_parts r of
        None \<Rightarrow> Parsed \<lparr> req_files = None, req_body = form_fields r, req_params = [] \<rparr>
      | Some parts \<Rightarrow>
          if list_ex (over_limit cfg) parts
          then Aborted \<lparr> status = 413, body = Str ''File size limit has been reached'' \<rparr>
          else Parsed
                 \<lparr> req_files =
                     (if parts = [] then None
                      else Some (map (\<lambda>p. (fieldname p, file_of_part p)) parts)),
                   req_body = form_fields r, req_params = [] \<rparr>)"

text \<open>\<^verbatim>\<open>POST /api/images/upload\<close> as the application answers it.\<close>

definition post_api_images_upload ::
  "config \<Rightarrow> 's cloudinary \<Rightarrow> platform \<Rightarrow> multipart_request \<Rightarrow> 's world
     \<Rightarrow> response \<times> 's world" where
  "post_api_images_upload cfg cl pf r w =
     (case fileUpload cfg r of
        Aborted res \<Rightarrow> (res, w)
      | Parsed req \<Rightarrow> post_upload cfg cl pf req w)"

section \<open>The properties, as predicates\<close>

text \<open>The keys of an object, in order; no keys for any other value.\<close>

fun keys_of :: "jsval \<Rightarrow> string list" where
  "keys_of (Obj kvs) = map fst kvs"
| "keys_of _ = []"

text \<open>
  The usage snapshot in the words of the specification: each of \<^verbatim>\<open>used\<close>, \<^verbatim>\<open>limit\<close> and
  \<^verbatim>\<open>percentage\<close> has a value for each of the four resources.
\<close>

definition spec_usage_snapshot :: "jsval \<Rightarrow> bool" where
  "spec_usage_snapshot d =
     list_all
       (\<lambda>part. list_all (\<lambda>resource. opt_chain (opt_chain d part) resource \<noteq> Undefined)
                 [''storage'', ''bandwidth'', ''transformations'', ''credits''])
       [''used'', ''limit'', ''percentage'']"

text \<open>The media types in the words of the specification: five of them.\<close>

definition spec_media_types :: "string list" where
  "spec_media_types =
     [''image/jpeg'', ''image/png'', ''image/gif'', ''image/webp'', ''image/svg+xml'']"

fun is_string :: "jsval \<Rightarrow> bool" where
  "is_string (Str s) = True"
| "is_string _ = False"

text \<open>An array of 1 to 100 strings, and the same with no string twice.\<close>

definition string_array_1_100 :: "jsval \<Rightarrow> bool" where
  "string_array_1_100 v =
     (case v of
        Arr xs \<Rightarrow> 1 \<le> length xs \<and> length xs \<le> 100 \<and> list_all is_string xs
      | _ \<Rightarrow> False)"

definition spec_unique_ids :: "jsval \<Rightarrow> bool" where
  "spec_unique_ids v =
     (case v of
        Arr xs \<Rightarrow> 1 \<le> length xs \<and> length xs \<le> 100 \<and> list_all is_string xs \<and> distinct xs
      | _ \<Rightarrow> False)"

text \<open>The body of a successful deletion, by what the provider reported.\<close>

definition deleted_body :: "object \<Rightarrow> string \<Rightarrow> jsval" where
  "deleted_body result publicId =
     Obj [(''success'', Bool True),
          (''message'',
             if get_prop result ''result'' = Str ''ok''
             then Str ''Image deleted successfully'' else Str ''Image not found''),
          (''publicId'', Str publicId)]"

section \<open>A provider and a platform to run the model on\<close>

text \<open>
  A provider that keeps the identifiers it stores in a list. It answers as the real one
  does: \<^verbatim>\<open>ok\<close> or \<^verbatim>\<open>not found\<close> to a deletion, and a rejection with
  \<^verbatim>\<open>{error: {message, http_code: 404}}\<close> to a request for an identifier it does not have.
\<close>

definition not_found_error :: "string \<Rightarrow> js_error" where
  "not_found_error publicId =
     \<lparr> err_name = None, err_message = None, err_statusCode = None,
       err_error = Some \<lparr> pe_message = Some (''Resource not found - '' @ publicId),
                          pe_http_code = Some 404 \<rparr>,
       err_stack = None \<rparr>"

definition stored_resource :: "string \<Rightarrow> object" where
  "stored_resource publicId =
     [(''public_id'', Str publicId), (''secure_url'', Str (''https://cdn/'' @ publicId)),
      (''format'', Str ''jpg''), (''width'', Num 50), (''height'', Num 50),
      (''bytes'', Num 4), (''created_at'', Str ''2024-01-01T00:00:00Z''),
      (''resource_type'', Str ''image''), (''type'', Str ''upload'')]"

definition usage_reply :: object where
  "usage_reply =
     [(''plan'', Str ''Free''),
      (''credits'', Obj [(''used'', Num 5), (''limit'', Num 25), (''used_percent'', Num 20)]),
      (''storage'', Obj [(''used'', Num 1000), (''limit'', Num 0), (''used_percent'', Num (1 / 2))]),
      (''bandwidth'', Obj [(''used'', Num 2000), (''limit'', Num 0), (''used_percent'', Num 1)]),
      (''transformations'',
         Obj [(''used'', Num 7), (''limit'', Num 100), (''used_percent'', Num 7)])]"

fun memory_provider :: "call \<Rightarrow> string list \<Rightarrow> (js_error + object) \<times> string list" where
  "memory_provider (Uploader_upload_stream ps buffer) s =
     (case get_prop ps ''public_id'' of
        Str publicId \<Rightarrow> (Inr (stored_resource publicId), publicId # s)
      | _ \<Rightarrow> (Inr (stored_resource ''generated''), ''generated'' # s))"
| "memory_provider (Api_resource publicId ps) s =
     (if publicId \<in> set s then (Inr (stored_resource publicId), s)
      else (Inl (not_found_error publicId), s))"
| "memory_provider (Uploader_destroy publicId) s =
     (if publicId \<in> set s then (Inr [(''result'', Str ''ok'')], removeAll publicId s)
      else (Inr [(''result'', Str ''not found'')], s))"
| "memory_provider Api_usage s = (Inr usage_reply, s)"
| "memory_provider (Api_delete_resources ids) s =
     (Inr [(''deleted'',
              Obj (map (\<lambda>v. case v of
                               Str publicId \<Rightarrow>
                                 (publicId,
                                  Str (if publicId \<in> set s then ''deleted'' else ''not_found''))
                             | _ \<Rightarrow> ([], Str ''not_found''))
                       ids)),
           (''partial'', Bool False)],
      filter (\<lambda>publicId. Str publicId \<notin> set ids) s)"

text \<open>
  A platform whose image decoder takes a buffer that starts with the JPEG marker
  \<open>FF D8\<close> and rejects every other one, and whose encoder returns the first two bytes.
\<close>

definition test_platform :: platform where
  "test_platform =
     \<lparr> NODE_ENV = Some ''production'',
       number_toString = (\<lambda>r. if r = 10 then ''10'' else ''?''),
       decodeURIComponent = (\<lambda>s. Inr s),
       details_message = (\<lambda>e. case e of Joi_error code path \<Rightarrow> code),
       sharp_metadata =
         (\<lambda>b. if take 2 b = [0xFF, 0xD8]
               then Inr \<lparr> width = Some 5000, height = Some 3000, format = Some ''jpeg'' \<rparr>
               else Inl (new_Error ''Input buffer contains unsupported image format'')),
       sharp_toBuffer = (\<lambda>b ops. Inr (take 2 b)),
       cloudinary_url = (\<lambda>publicId options. publicId) \<rparr>"

definition empty_world :: "string list world" where
  "empty_world = \<lparr> provider = [], calls = [] \<rparr>"

definition request_for :: "string \<Rightarrow> request" where
  "request_for publicId =
     \<lparr> req_files = None, req_body = [], req_params = [(''publicId'', publicId)] \<rparr>"

definition upload_request :: "uploaded_file \<Rightarrow> object \<Rightarrow> request" where
  "upload_request f b = \<lparr> req_files = Some [(''image'', f)], req_body = b, req_params = [] \<rparr>"

definition corrupt_jpeg :: uploaded_file where
  "corrupt_jpeg =
     \<lparr> name = ''photo.JPG'', data = [0x00, 0x01, 0x02], size_file = 3,
       mimetype = ''image/jpeg'' \<rparr>"

definition good_jpeg :: uploaded_file where
  "good_jpeg =
     \<lparr> name = ''photo.jpg'', data = [0xFF, 0xD8, 0x10, 0x20], size_file = 4,
       mimetype = ''image/jpg'' \<rparr>"

definition small_svg :: uploaded_file where
  "small_svg =
     \<lparr> name = ''logo.svg'', data = [0x3C, 0x73, 0x76, 0x67], size_file = 4,
       mimetype = ''image/svg+xml'' \<rparr>"

definition bulk_request :: "jsval \<Rightarrow> request" where
  "bulk_request ids = \<lparr> req_files = None, req_body = [(''publicIds'', ids)], req_params = [] \<rparr>"

text \<open>A provider that is out of service: it rejects every call.\<close>

definition failing_provider :: "call \<Rightarrow> unit \<Rightarrow> (js_error + object) \<times> unit" where
  "failing_provider c s =
     (Inl \<lparr> err_name = None, err_message = Some ''Service unavailable'',
            err_statusCode = None,
            err_error = None, err_stack = None \<rparr>, s)"

text \<open>A configuration with \<^verbatim>\<open>MAX_FILE_SIZE=3\<close>, and a multipart upload of four bytes.\<close>

definition three_byte_config :: config where
  "three_byte_config =
     \<lparr> maxFileSize = 3,
       allowedFormats = [''jpg'', ''jpeg'', ''png'', ''gif'', ''webp'', ''svg''] \<rparr>"

definition four_byte_upload :: multipart_request where
  "four_byte_upload =
     \<lparr> file_parts =
         Some [\<lparr> fieldname = ''image'', filename = ''photo.jpg'',
                  part_mimetype = ''image/jpeg'', part_data = [0xFF, 0xD8, 0x10, 0x20] \<rparr>],
       form_fields = [] \<rparr>"

definition uppercase_config :: config where
  "uppercase_config = \<lparr> maxFileSize = 10 * 1024 * 1024, allowedFormats = [''JPG'', ''PNG''] \<rparr>"

section \<open>Facts about the string helpers\<close>

lemma split_not_Nil: "split c s \<noteq> []"
  by (induction s) (auto split: list.splits)

lemma pop_last: "xs \<noteq> [] \<Longrightarrow> pop xs = Some (last xs)"
  by (induction xs rule: pop.induct) auto

lemma pop_split: "pop (split c s) = Some (last (split c s))"
  by (simp add: pop_last split_not_Nil)

lemma split_no_separator: "c \<notin> set s \<Longrightarrow> split c s = [s]"
  by (induction s) auto

lemma split_append: "split c (xs @ c # ys) = split c xs @ split c ys"
proof (induction xs)
  case Nil
  show ?case by simp
next
  case (Cons a xs)
  obtain w ws where "split c xs = w # ws"
    using split_not_Nil [of c xs] by (cases "split c xs") auto
  with Cons show ?case by simp
qed

lemma last_split_append: "c \<notin> set ext \<Longrightarrow> last (split c (stem @ c # ext)) = ext"
  by (simp add: split_append split_not_Nil split_no_separator)

lemma toLowerCase_JPG: "toLowerCase ''JPG'' = ''jpg''"
  by code_simp

lemma toLowerCase_jpg: "toLowerCase ''jpg'' = ''jpg''"
  by code_simp

section \<open>The file validator\<close>

text \<open>
  With a file in the request the validator is a chain of three tests; the answer 500 of
  its \<^verbatim>\<open>catch\<close> cannot occur, since \<^verbatim>\<open>split\<close> never returns an empty array.
\<close>

lemma validateFileUpload_cases:
  assumes "files_image req = Some f"
  shows "validateFileUpload cfg pf req =
     (if size_file f > maxFileSize cfg then
        Respond (status_json 400 (failure (Str
              (''File size exceeds limit. Maximum size: ''
               @ number_toString pf (of_int (maxFileSize cfg) / 1024 / 1024) @ ''MB''))))
      else if toLowerCase (last (split CHR ''.'' (name f))) \<notin> set (allowedFormats cfg) then
        Respond (status_json 400 (failure (Str
                     (''Invalid file format. Allowed formats: ''
                      @ join '', '' (allowedFormats cfg)))))
      else if mimetype f \<notin> set validMimetypes then
        Respond (status_json 400 (failure (Str
                     ''Invalid file type. Please upload an image file.'')))
      else Next)"
  using assms by (simp add: validateFileUpload_def pop_split Let_def)

text \<open>
  C4, as the code has it. The validator knows six media types: the five of the
  specification and \<^verbatim>\<open>image/jpg\<close>. A file with any other declared type is answered
  with 400 and no call of the provider is made; a file that passes the size and the
  extension tests is handed on exactly when its declared type is one of the six.
\<close>

theorem media_type_checked:
  assumes "files_image req = Some f"
  shows "(mimetype f \<notin> set validMimetypes \<longrightarrow>
            status (fst (post_upload cfg cl pf req w)) = 400
            \<and> snd (post_upload cfg cl pf req w) = w)
         \<and> (size_file f \<le> maxFileSize cfg
              \<and> toLowerCase (last (split CHR ''.'' (name f))) \<in> set (allowedFormats cfg) \<longrightarrow>
             (validateFileUpload cfg pf req = Next \<longleftrightarrow> mimetype f \<in> set validMimetypes))
         \<and> set validMimetypes = set spec_media_types \<union> {''image/jpg''}
         \<and> length validMimetypes = 6"
  using assms
  by (auto simp add: post_upload_def validateFileUpload_cases status_json_def
      validMimetypes_def spec_media_types_def)

theorem media_type_checked_witness:
  "status (fst (post_upload default_config memory_provider test_platform
             (upload_request (good_jpeg\<lparr>mimetype := ''application/pdf''\<rparr>) []) empty_world)) = 400
   \<and> snd (post_upload default_config memory_provider test_platform
             (upload_request (good_jpeg\<lparr>mimetype := ''application/pdf''\<rparr>) []) empty_world)
       = empty_world
   \<and> validateFileUpload default_config test_platform (upload_request good_jpeg []) = Next"
  using media_type_checked [of "upload_request (good_jpeg\<lparr>mimetype := ''application/pdf''\<rparr>) []"
      "good_jpeg\<lparr>mimetype := ''application/pdf''\<rparr>" default_config memory_provider
      test_platform empty_world]
    media_type_checked [of "upload_request good_jpeg []" good_jpeg default_config
      memory_provider test_platform empty_world]
  by (simp add: files_image_def upload_request_def good_jpeg_def default_config_def
      validMimetypes_def toLowerCase_def toLowerCase_char_def)

text \<open>
  The claim as the specification words it fails: a file declared \<^verbatim>\<open>image/jpg\<close>, which
  is none of the five, is handed on.
\<close>

theorem media_type_counterexample:
  "validateFileUpload default_config test_platform (upload_request good_jpeg []) = Next
   \<and> mimetype good_jpeg \<notin> set spec_media_types"
  by (simp add: validateFileUpload_def files_image_def upload_request_def good_jpeg_def
      default_config_def validMimetypes_def spec_media_types_def toLowerCase_def
      toLowerCase_char_def Let_def)

text \<open>
  C10, as the code has it. The extension is the piece of the file name after its last
  dot, lowercased, and it is looked up in the allow-list as configured. So a file whose
  extension differs only in letter case from an entry that is itself in lower case
  passes the format test: the validator goes on to the media type.
\<close>

theorem extension_check_ignores_case:
  assumes "files_image req = Some f"
    and "size_file f \<le> maxFileSize cfg"
    and "name f = stem @ CHR ''.'' # ext" and "CHR ''.'' \<notin> set ext"
    and "entry \<in> set (allowedFormats cfg)" and "toLowerCase entry = entry"
    and "toLowerCase ext = toLowerCase entry"
  shows "validateFileUpload cfg pf req =
           (if mimetype f \<in> set validMimetypes then Next
            else Respond (status_json 400 (failure (Str
                   ''Invalid file type. Please upload an image file.''))))"
  using assms by (simp add: validateFileUpload_cases last_split_append)

theorem extension_check_ignores_case_witness:
  "validateFileUpload default_config test_platform (upload_request corrupt_jpeg []) = Next"
proof -
  have "validateFileUpload default_config test_platform (upload_request corrupt_jpeg []) =
           (if mimetype corrupt_jpeg \<in> set validMimetypes then Next
            else Respond (status_json 400 (failure (Str
                   ''Invalid file type. Please upload an image file.''))))"
  proof (rule extension_check_ignores_case [where stem = "''photo''" and ext = "''JPG''"
        and entry = "''jpg''"])
    show "files_image (upload_request corrupt_jpeg []) = Some corrupt_jpeg"
      by (simp add: files_image_def upload_request_def)
    show "size_file corrupt_jpeg \<le> maxFileSize default_config"
      by (simp add: corrupt_jpeg_def default_config_def)
    show "name corrupt_jpeg = ''photo'' @ CHR ''.'' # ''JPG''"
      by (simp add: corrupt_jpeg_def)
    show "CHR ''.'' \<notin> set ''JPG''" by simp
    show "''jpg'' \<in> set (allowedFormats default_config)"
      by (simp add: default_config_def)
    show "toLowerCase ''jpg'' = ''jpg''" by (rule toLowerCase_jpg)
    show "toLowerCase ''JPG'' = toLowerCase ''jpg''"
      by (simp add: toLowerCase_JPG toLowerCase_jpg)
  qed
  then show ?thesis by (simp add: corrupt_jpeg_def validMimetypes_def)
qed

text \<open>
  The claim as worded fails when an entry of the configured allow-list has a capital
  letter: with the list \<^verbatim>\<open>JPG,PNG\<close> the file \<^verbatim>\<open>photo.jpg\<close>, whose extension differs from
  the entry \<^verbatim>\<open>JPG\<close> only in letter case, is answered with 400.
\<close>

theorem extension_counterexample:
  "''JPG'' \<in> set (allowedFormats uppercase_config)
   \<and> toLowerCase (last (split CHR ''.'' (name good_jpeg))) = toLowerCase ''JPG''
   \<and> validateFileUpload uppercase_config test_platform (upload_request good_jpeg [])
       = Respond (status_json 400 (failure (Str
           ''Invalid file format. Allowed formats: JPG, PNG'')))"
  by code_simp

section \<open>Fetching an image that is not stored\<close>

lemma errorHandler_new_Error: "status (errorHandler pf (new_Error msg)) = 500"
  by (simp add: errorHandler_def new_Error_def or_500_def has_provider_message_def
      status_json_def Let_def)

text \<open>
  Whenever the provider rejects the request for a resource with the code 404,
  \<^verbatim>\<open>getImage\<close> replaces the rejection by a fresh \<^verbatim>\<open>Error\<close> that carries a message and
  no status, and \<^verbatim>\<open>errorHandler\<close> answers 500.
\<close>

lemma get_image_not_found_is_500:
  assumes "validatePublicId req = Next"
    and "decoded_publicId pf req = Inr publicId"
    and "cl (Api_resource publicId [(''resource_type'', Str ''image'')]) (provider w) = (Inl e, s')"
    and "http_code_is_404 e"
  shows "status (fst (get_image cl pf req w)) = 500"
  using assms
  by (simp add: get_image_def asyncHandler_def get_image_handler_def getImage_def invoke_def
      get_prop_def js_or_def errorHandler_new_Error)

text \<open>
  Had the rejection reached \<^verbatim>\<open>errorHandler\<close> as the provider's client raised it, the
  answer would have been 404: the handler copies the provider's code.
\<close>

lemma errorHandler_not_found_error:
  "status (errorHandler pf (not_found_error publicId)) = 404"
  by (simp add: errorHandler_def not_found_error_def or_500_def has_provider_message_def
      status_json_def Let_def)

text \<open>
  C1. The request \<^verbatim>\<open>GET /images/missing\<close> against a provider that stores nothing: the
  provider is asked once and reports not-found with the code 404; the response has the
  body \<^verbatim>\<open>{success: false, error: "Image not found"}\<close>, and its status is 500, not 404.
\<close>

theorem get_image_not_found_response:
  "get_image memory_provider test_platform (request_for ''missing'') empty_world =
     (\<lparr> status = 500,
        body = Obj [(''success'', Bool False), (''error'', Str ''Image not found'')] \<rparr>,
      \<lparr> provider = [],
        calls = [Api_resource ''missing'' [(''resource_type'', Str ''image'')]] \<rparr>)"
  by code_simp

section \<open>Optimization never fails an upload\<close>

lemma optimizeImage_returns: "\<exists>out. optimizeImage pf buffer mime = Inr out"
  by (simp add: optimizeImage_def split: sum.split)

lemma uploadImage_try_Some:
  "uploadImage_try cl pf (Some f) options w =
     (case (if get_prop options ''optimize'' \<noteq> Bool False
            then optimizeImage pf (data f) (mimetype f)
            else Inr (data f)) of
        Inl e \<Rightarrow> (Inl e, w)
      | Inr buffer \<Rightarrow>
          (case invoke cl (Uploader_upload_stream (upload_params options) buffer) w of
             (Inl error, w') \<Rightarrow> (Inl error, w')
           | (Inr result, w') \<Rightarrow>
               (Inr (Obj
                  [(''success'', Bool True),
                   (''data'', Obj
                      [(''publicId'', get_prop result ''public_id''),
                       (''url'', get_prop result ''secure_url''),
                       (''format'', get_prop result ''format''),
                       (''width'', get_prop result ''width''),
                       (''height'', get_prop result ''height''),
                       (''bytes'', get_prop result ''bytes''),
                       (''createdAt'', get_prop result ''created_at''),
                       (''resourceType'', get_prop result ''resource_type''),
                       (''type'', get_prop result ''type''),
                       (''thumbnail'',
                          getThumbnailUrl pf (get_prop result ''public_id'')
                            (get_prop result ''format''))])]), w')))"
  by (simp add: uploadImage_try_def)

lemma upload_params_optimize:
  "upload_params ((''optimize'', v) # options) = upload_params options"
  by (simp add: upload_params_def get_prop_def)

text \<open>
  An upload whose optimization failed is the upload with optimization switched off.
\<close>

lemma uploadImage_failed_optimization:
  assumes "optimizeImage_try pf (data f) (mimetype f) = Inl e"
  shows "uploadImage cl pf (Some f) options w
           = uploadImage cl pf (Some f) ((''optimize'', Bool False) # options) w"
proof -
  have "optimizeImage pf (data f) (mimetype f) = Inr (data f)"
    using assms by (simp add: optimizeImage_def)
  then have "uploadImage_try cl pf (Some f) options w
               = uploadImage_try cl pf (Some f) ((''optimize'', Bool False) # options) w"
    unfolding uploadImage_try_Some upload_params_optimize
    by (simp add: get_prop_def)
  then show ?thesis by (simp add: uploadImage_def)
qed

text \<open>With a file at hand, \<^verbatim>\<open>uploadImage\<close> throws only what the provider rejected.\<close>

lemma uploadImage_fails_only_at_provider:
  assumes "fst (uploadImage cl pf (Some f) options w) = Inl err"
  shows "\<exists>buffer e s. cl (Uploader_upload_stream (upload_params options) buffer) (provider w)
                        = (Inl e, s)"
proof -
  obtain out where out: "optimizeImage pf (data f) (mimetype f) = Inr out"
    using optimizeImage_returns by blast
  define buffer where
    "buffer = (if get_prop options ''optimize'' \<noteq> Bool False then out else data f)"
  obtain reply s where reply:
    "cl (Uploader_upload_stream (upload_params options) buffer) (provider w) = (reply, s)"
    by (cases "cl (Uploader_upload_stream (upload_params options) buffer) (provider w)")
  have "\<exists>e. reply = Inl e"
  proof (cases reply)
    case (Inl e)
    then show ?thesis by blast
  next
    case (Inr result)
    with out reply assms show ?thesis
      by (simp add: uploadImage_def uploadImage_try_Some invoke_def buffer_def
          split: if_splits)
  qed
  with reply show ?thesis by blast
qed

text \<open>
  C2. \<^verbatim>\<open>optimizeImage\<close> always returns a buffer. When anything inside its \<^verbatim>\<open>try\<close>
  throws, and in particular when the decoder rejects the buffer, it returns the buffer
  it was given. An upload whose optimization failed proceeds as the upload with
  optimization switched off, and an upload of a file fails only when the provider
  rejects it.
\<close>

theorem optimizeImage_never_raises:
  "(\<exists>out. optimizeImage pf buffer mime = Inr out)
   \<and> (\<forall>e. optimizeImage_try pf buffer mime = Inl e
          \<longrightarrow> optimizeImage pf buffer mime = Inr buffer)
   \<and> (\<forall>e. mime \<noteq> ''image/svg+xml'' \<and> sharp_metadata pf buffer = Inl e
          \<longrightarrow> optimizeImage pf buffer mime = Inr buffer)
   \<and> (\<forall>e. optimizeImage_try pf (data f) (mimetype f) = Inl e
          \<longrightarrow> uploadImage cl pf (Some f) options w
                = uploadImage cl pf (Some f) ((''optimize'', Bool False) # options) w)
   \<and> (\<forall>err. fst (uploadImage cl pf (Some f) options w) = Inl err
          \<longrightarrow> (\<exists>b e s. cl (Uploader_upload_stream (upload_params options) b) (provider w)
                          = (Inl e, s)))"
proof (intro conjI allI impI)
  show "\<exists>out. optimizeImage pf buffer mime = Inr out"
    by (rule optimizeImage_returns)
next
  fix e assume "optimizeImage_try pf buffer mime = Inl e"
  then show "optimizeImage pf buffer mime = Inr buffer"
    by (simp add: optimizeImage_def)
next
  fix e assume "mime \<noteq> ''image/svg+xml'' \<and> sharp_metadata pf buffer = Inl e"
  then show "optimizeImage pf buffer mime = Inr buffer"
    by (simp add: optimizeImage_def optimizeImage_try_def)
next
  fix e assume "optimizeImage_try pf (data f) (mimetype f) = Inl e"
  then show "uploadImage cl pf (Some f) options w
               = uploadImage cl pf (Some f) ((''optimize'', Bool False) # options) w"
    by (rule uploadImage_failed_optimization)
next
  fix err assume "fst (uploadImage cl pf (Some f) options w) = Inl err"
  then show "\<exists>b e s. cl (Uploader_upload_stream (upload_params options) b) (provider w)
                       = (Inl e, s)"
    by (rule uploadImage_fails_only_at_provider)
qed

theorem optimizeImage_never_raises_witness:
  "optimizeImage test_platform (data corrupt_jpeg) (mimetype corrupt_jpeg)
     = Inr (data corrupt_jpeg)
   \<and> uploadImage memory_provider test_platform (Some corrupt_jpeg) [] empty_world
     = uploadImage memory_provider test_platform (Some corrupt_jpeg)
         [(''optimize'', Bool False)] empty_world
   \<and> (\<exists>b e s. failing_provider (Uploader_upload_stream (upload_params []) b) () = (Inl e, s))"
proof -
  have rejected: "mimetype corrupt_jpeg \<noteq> ''image/svg+xml''
      \<and> sharp_metadata test_platform (data corrupt_jpeg)
          = Inl (new_Error ''Input buffer contains unsupported image format'')"
    by (simp add: corrupt_jpeg_def test_platform_def)
  then have thrown: "optimizeImage_try test_platform (data corrupt_jpeg) (mimetype corrupt_jpeg)
      = Inl (new_Error ''Input buffer contains unsupported image format'')"
    by (simp add: optimizeImage_try_def)
  have failed: "fst (uploadImage failing_provider test_platform (Some corrupt_jpeg) []
                       \<lparr> provider = (), calls = [] \<rparr>)
      = Inl (new_Error ''Image upload failed: Service unavailable'')"
    using thrown
    by (simp add: uploadImage_def uploadImage_try_Some optimizeImage_def invoke_def
        failing_provider_def get_prop_def message_text_def)
  from rejected thrown
    optimizeImage_never_raises [of test_platform "data corrupt_jpeg" "mimetype corrupt_jpeg"
      corrupt_jpeg memory_provider "[]" empty_world]
  have first: "optimizeImage test_platform (data corrupt_jpeg) (mimetype corrupt_jpeg)
     = Inr (data corrupt_jpeg)
   \<and> uploadImage memory_provider test_platform (Some corrupt_jpeg) [] empty_world
     = uploadImage memory_provider test_platform (Some corrupt_jpeg)
         [(''optimize'', Bool False)] empty_world"
    by blast
  from failed
    optimizeImage_never_raises [of test_platform "data corrupt_jpeg" "mimetype corrupt_jpeg"
      corrupt_jpeg failing_provider "[]" "\<lparr> provider = (), calls = [] \<rparr>"]
  have "\<exists>b e s. failing_provider (Uploader_upload_stream (upload_params []) b) () = (Inl e, s)"
    by simp
  with first show ?thesis by blast
qed

section \<open>The usage snapshot\<close>

lemma js_or_defined: "js_or a (Num 0) \<noteq> Undefined"
  by (simp add: js_or_def) (cases a; simp)

lemma getStats_reply:
  assumes "cl Api_usage (provider w) = (Inr usage, s')"
  shows "\<exists>u l p.
     fst (get_stats_usage cl pf w) = json (Obj [(''success'', Bool True), (''data'', Obj
        [(''used'', Obj [(''credits'', js_or (u ''credits'') (Num 0)),
                         (''storage'', js_or (u ''storage'') (Num 0)),
                         (''bandwidth'', js_or (u ''bandwidth'') (Num 0)),
                         (''transformations'', js_or (u ''transformations'') (Num 0))]),
         (''limit'', Obj [(''credits'', js_or (l ''credits'') (Num 0)),
                         (''storage'', js_or (l ''storage'') (Num 0)),
                         (''bandwidth'', js_or (l ''bandwidth'') (Num 0)),
                         (''transformations'', js_or (l ''transformations'') (Num 0))]),
         (''percentage'', Obj [(''credits'', js_or (p ''credits'') (Num 0)),
                         (''storage'', js_or (p ''storage'') (Num 0)),
                         (''bandwidth'', js_or (p ''bandwidth'') (Num 0))])])])"
  apply (rule exI [where x = "\<lambda>k. opt_chain (get_prop usage k) ''used''"])
  apply (rule exI [where x = "\<lambda>k. opt_chain (get_prop usage k) ''limit''"])
  apply (rule exI [where x = "\<lambda>k. opt_chain (get_prop usage k) ''used_percent''"])
  using assms by (simp add: get_stats_usage_def getStats_def invoke_def asyncHandler_def)

text \<open>
  C3, as the code has it. A successful answer to \<^verbatim>\<open>GET /images/stats/usage\<close> has
  status 200 and carries, under \<^verbatim>\<open>used\<close> and under \<^verbatim>\<open>limit\<close>, a value for each of
  credits, storage, bandwidth and transformations, and under \<^verbatim>\<open>percentage\<close> a value for
  credits, storage and bandwidth only: there is no percentage for transformations.
\<close>

theorem usage_snapshot_shape:
  assumes "cl Api_usage (provider w) = (Inr usage, s')"
  shows "status (fst (get_stats_usage cl pf w)) = 200
    \<and> opt_chain (body (fst (get_stats_usage cl pf w))) ''success'' = Bool True
    \<and> keys_of (opt_chain (opt_chain (body (fst (get_stats_usage cl pf w))) ''data'') ''used'')
        = [''credits'', ''storage'', ''bandwidth'', ''transformations'']
    \<and> keys_of (opt_chain (opt_chain (body (fst (get_stats_usage cl pf w))) ''data'') ''limit'')
        = [''credits'', ''storage'', ''bandwidth'', ''transformations'']
    \<and> keys_of (opt_chain (opt_chain (body (fst (get_stats_usage cl pf w))) ''data'') ''percentage'')
        = [''credits'', ''storage'', ''bandwidth'']
    \<and> list_all
         (\<lambda>part. list_all
            (\<lambda>resource. opt_chain (opt_chain (opt_chain (body (fst (get_stats_usage cl pf w)))
                                      ''data'') part) resource \<noteq> Undefined)
            [''storage'', ''bandwidth'', ''transformations'', ''credits''])
         [''used'', ''limit'']
    \<and> list_all
         (\<lambda>resource. opt_chain (opt_chain (opt_chain (body (fst (get_stats_usage cl pf w)))
                                   ''data'') ''percentage'') resource \<noteq> Undefined)
         [''storage'', ''bandwidth'', ''credits'']
    \<and> opt_chain (opt_chain (opt_chain (body (fst (get_stats_usage cl pf w))) ''data'')
          ''percentage'') ''transformations'' = Undefined"
proof -
  from assms getStats_reply [of cl w usage s' pf] obtain u l p where
    "fst (get_stats_usage cl pf w) = json (Obj [(''success'', Bool True), (''data'', Obj
        [(''used'', Obj [(''credits'', js_or (u ''credits'') (Num 0)),
                         (''storage'', js_or (u ''storage'') (Num 0)),
                         (''bandwidth'', js_or (u ''bandwidth'') (Num 0)),
                         (''transformations'', js_or (u ''transformations'') (Num 0))]),
         (''limit'', Obj [(''credits'', js_or (l ''credits'') (Num 0)),
                         (''storage'', js_or (l ''storage'') (Num 0)),
                         (''bandwidth'', js_or (l ''bandwidth'') (Num 0)),
                         (''transformations'', js_or (l ''transformations'') (Num 0))]),
         (''percentage'', Obj [(''credits'', js_or (p ''credits'') (Num 0)),
                         (''storage'', js_or (p ''storage'') (Num 0)),
                         (''bandwidth'', js_or (p ''bandwidth'') (Num 0))])])])"
    by blast
  then show ?thesis
    by (simp add: json_def status_json_def get_prop_def js_or_defined)
qed

theorem usage_snapshot_shape_witness:
  "status (fst (get_stats_usage memory_provider test_platform empty_world)) = 200
   \<and> keys_of (opt_chain (opt_chain
         (body (fst (get_stats_usage memory_provider test_platform empty_world))) ''data'')
         ''percentage'') = [''credits'', ''storage'', ''bandwidth'']"
  using usage_snapshot_shape [of memory_provider empty_world usage_reply "[]" test_platform]
  by (simp add: empty_world_def)

text \<open>
  The claim as worded fails on a provider that reports all four resources in full: the
  answer is a success, and the percentage of transformations is not in it.
\<close>

theorem usage_snapshot_counterexample:
  "status (fst (get_stats_usage memory_provider test_platform empty_world)) = 200
   \<and> \<not> spec_usage_snapshot
         (opt_chain (body (fst (get_stats_usage memory_provider test_platform empty_world)))
            ''data'')"
  by code_simp

section \<open>Bulk deletion\<close>

lemma first_error_None: "first_error rs = None \<longleftrightarrow> (\<forall>r \<in> set rs. r = None)"
  by (induction rs rule: first_error.induct) auto

lemma joi_string_ok: "joi_check (Joi_string None) path v = None \<Longrightarrow> is_string v"
  by (cases v) (simp_all split: if_splits)

lemma joi_array_ok:
  assumes "joi_check (Joi_array (Joi_string None) (Some 1) (Some 100)) path v = None"
  shows "string_array_1_100 v"
proof (cases v)
  case (Arr xs)
  let ?check = "\<lambda>(i, x). if x = Undefined
                           then Some (Joi_error ''array.sparse'' (path @ [Index i]))
                           else joi_check (Joi_string None) (path @ [Index i]) x"
  from assms Arr have items: "first_error (map ?check (zip [0 ..< length xs] xs)) = None"
    by (auto split: option.splits if_splits)
  from assms Arr have bounds: "1 \<le> length xs \<and> length xs \<le> 100"
    by (auto simp: Suc_le_eq split: option.splits if_splits)
  have "is_string x" if "x \<in> set xs" for x
  proof -
    from that obtain i where i: "i < length xs" "xs ! i = x"
      by (auto simp: in_set_conv_nth)
    then have "(i, x) \<in> set (zip [0 ..< length xs] xs)"
      by (auto simp: in_set_zip intro!: exI [where x = i])
    with items have "?check (i, x) = None"
      by (force simp: first_error_None)
    then have "joi_check (Joi_string None) (path @ [Index i]) x = None"
      by (simp del: joi_check.simps split: if_splits)
    then show ?thesis by (rule joi_string_ok)
  qed
  with bounds Arr show ?thesis
    by (simp add: string_array_1_100_def list_all_iff)
qed (use assms in simp_all)

lemma bulk_delete_schema_ok:
  assumes "joi_object_validate bulk_delete_schema b = None"
  shows "string_array_1_100 (get_prop b ''publicIds'')"
proof -
  from assms have "joi_check (Joi_array (Joi_string None) (Some 1) (Some 100))
               [Key ''publicIds''] (get_prop b ''publicIds'') = None"
    by (cases "get_prop b ''publicIds''")
      (simp_all add: joi_object_validate_def bulk_delete_schema_def first_error_None)
  then show ?thesis by (rule joi_array_ok)
qed

text \<open>
  C5, as the code has it. \<^verbatim>\<open>POST /images/bulk-delete\<close> is handed on to the handler only
  when \<^verbatim>\<open>publicIds\<close> is an array of 1 to 100 strings; every other request is answered
  with 400 and no call of the provider is made. The schema has no rule on repeated
  entries: an array that names an identifier twice is handed on like any other.
\<close>

theorem bulk_delete_validated:
  "(validateBulkDelete pf req = Next
      \<longrightarrow> string_array_1_100 (get_prop (req_body req) ''publicIds''))
   \<and> (\<not> string_array_1_100 (get_prop (req_body req) ''publicIds'')
      \<longrightarrow> status (fst (post_bulk_delete cl pf req w)) = 400
          \<and> snd (post_bulk_delete cl pf req w) = w)"
proof (intro conjI impI)
  assume "validateBulkDelete pf req = Next"
  then have "joi_object_validate bulk_delete_schema (req_body req) = None"
    by (simp add: validateBulkDelete_def split: option.splits)
  then show "string_array_1_100 (get_prop (req_body req) ''publicIds'')"
    by (rule bulk_delete_schema_ok)
next
  assume bad: "\<not> string_array_1_100 (get_prop (req_body req) ''publicIds'')"
  then obtain e where "joi_object_validate bulk_delete_schema (req_body req) = Some e"
    using bulk_delete_schema_ok [of "req_body req"]
    by (cases "joi_object_validate bulk_delete_schema (req_body req)") auto
  then show "status (fst (post_bulk_delete cl pf req w)) = 400"
    by (simp add: post_bulk_delete_def validateBulkDelete_def status_json_def)
next
  assume bad: "\<not> string_array_1_100 (get_prop (req_body req) ''publicIds'')"
  then obtain e where "joi_object_validate bulk_delete_schema (req_body req) = Some e"
    using bulk_delete_schema_ok [of "req_body req"]
    by (cases "joi_object_validate bulk_delete_schema (req_body req)") auto
  then show "snd (post_bulk_delete cl pf req w) = w"
    by (simp add: post_bulk_delete_def validateBulkDelete_def status_json_def)
qed

theorem bulk_delete_validated_witness:
  "status (fst (post_bulk_delete memory_provider test_platform (bulk_request (Arr []))
                  empty_world)) = 400
   \<and> snd (post_bulk_delete memory_provider test_platform (bulk_request (Arr [])) empty_world)
       = empty_world
   \<and> string_array_1_100 (Arr [Str ''a'', Str ''a''])"
proof -
  have bad: "\<not> string_array_1_100 (get_prop (req_body (bulk_request (Arr []))) ''publicIds'')"
    by (simp add: bulk_request_def get_prop_def string_array_1_100_def)
  have ok: "validateBulkDelete test_platform (bulk_request (Arr [Str ''a'', Str ''a''])) = Next"
    by code_simp
  have sel: "get_prop (req_body (bulk_request (Arr [Str ''a'', Str ''a'']))) ''publicIds''
               = Arr [Str ''a'', Str ''a'']"
    by (simp add: bulk_request_def get_prop_def)
  from bad bulk_delete_validated [of test_platform "bulk_request (Arr [])" memory_provider
      empty_world]
  have "status (fst (post_bulk_delete memory_provider test_platform (bulk_request (Arr []))
                  empty_world)) = 400
   \<and> snd (post_bulk_delete memory_provider test_platform (bulk_request (Arr [])) empty_world)
       = empty_world"
    by blast
  moreover from ok sel
    bulk_delete_validated [of test_platform "bulk_request (Arr [Str ''a'', Str ''a''])"
      memory_provider empty_world]
  have "string_array_1_100 (Arr [Str ''a'', Str ''a''])"
    by simp
  ultimately show ?thesis by blast
qed

text \<open>
  The claim as worded fails on an array that names the same identifier twice: the
  validator hands it on, and the provider is asked to delete both entries.
\<close>

theorem bulk_delete_counterexample:
  "\<not> spec_unique_ids (get_prop (req_body (bulk_request (Arr [Str ''a'', Str ''a''])))
                        ''publicIds'')
   \<and> validateBulkDelete test_platform (bulk_request (Arr [Str ''a'', Str ''a''])) = Next
   \<and> status (fst (post_bulk_delete memory_provider test_platform
                    (bulk_request (Arr [Str ''a'', Str ''a''])) empty_world)) = 200
   \<and> calls (snd (post_bulk_delete memory_provider test_platform
                    (bulk_request (Arr [Str ''a'', Str ''a''])) empty_world))
       = [Api_delete_resources [Str ''a'', Str ''a'']]"
  by code_simp

section \<open>Uploads that skip optimization\<close>

lemma optimizeImage_svg: "optimizeImage pf buffer ''image/svg+xml'' = Inr buffer"
  by (simp add: optimizeImage_def optimizeImage_try_def)

lemma uploadImage_calls:
  assumes "(if get_prop options ''optimize'' \<noteq> Bool False
            then optimizeImage pf (data f) (mimetype f)
            else Inr (data f)) = Inr buffer"
  shows "calls (snd (uploadImage cl pf (Some f) options w))
           = calls w @ [Uploader_upload_stream (upload_params options) buffer]"
proof -
  obtain reply s where
    "cl (Uploader_upload_stream (upload_params options) buffer) (provider w) = (reply, s)"
    by (cases "cl (Uploader_upload_stream (upload_params options) buffer) (provider w)")
  with assms show ?thesis
    by (cases reply) (simp_all add: uploadImage_def uploadImage_try_Some invoke_def)
qed

lemma upload_handler_calls:
  assumes "files_image req = Some f"
  shows "calls (snd (upload_handler cl pf req w))
           = calls (snd (uploadImage cl pf (Some f) (upload_options (req_body req)) w))"
proof -
  from assms obtain fs where fs: "req_files req = Some fs" "map_of fs ''image'' = Some f"
    by (auto simp: files_image_def split: option.splits)
  obtain r w' where "uploadImage cl pf (Some f) (upload_options (req_body req)) w = (r, w')"
    by (cases "uploadImage cl pf (Some f) (upload_options (req_body req)) w")
  with fs show ?thesis
    by (cases r) (simp_all add: upload_handler_def)
qed

lemma asyncHandler_world: "snd (asyncHandler pf r) = snd r"
  by (cases r) (simp add: asyncHandler_def split: sum.splits)

lemma upload_options_optimize:
  "get_prop (upload_options b) ''optimize'' = Bool (get_prop b ''optimize'' \<noteq> Str ''false'')"
  by (simp add: upload_options_def get_prop_def)

text \<open>
  C6. When the options of \<^verbatim>\<open>uploadImage\<close> carry \<^verbatim>\<open>optimize: false\<close>, or the file is
  declared \<^verbatim>\<open>image/svg+xml\<close>, the one call of the provider that the upload makes is
  handed the bytes of the file as they came. For the route: when the form field
  \<^verbatim>\<open>optimize\<close> is the string \<^verbatim>\<open>false\<close>, or the file is declared SVG, the route either
  makes no call at all (a validator answered) or makes that one upload call with the
  bytes of the file, and it makes it whenever both validators hand the request on.
\<close>

theorem unoptimized_upload_keeps_bytes:
  "(get_prop options ''optimize'' = Bool False \<or> mimetype f = ''image/svg+xml''
      \<longrightarrow> calls (snd (uploadImage cl pf (Some f) options w))
            = calls w @ [Uploader_upload_stream (upload_params options) (data f)])
   \<and> (files_image req = Some f
       \<and> (get_prop (req_body req) ''optimize'' = Str ''false'' \<or> mimetype f = ''image/svg+xml'')
      \<longrightarrow> calls (snd (post_upload cfg cl pf req w)) = calls w
          \<or> calls (snd (post_upload cfg cl pf req w))
              = calls w @ [Uploader_upload_stream
                             (upload_params (upload_options (req_body req))) (data f)])
   \<and> (files_image req = Some f
       \<and> (get_prop (req_body req) ''optimize'' = Str ''false'' \<or> mimetype f = ''image/svg+xml'')
       \<and> validateFileUpload cfg pf req = Next \<and> validateUploadOptions pf req = Next
      \<longrightarrow> calls (snd (post_upload cfg cl pf req w))
            = calls w @ [Uploader_upload_stream
                           (upload_params (upload_options (req_body req))) (data f)])"
proof (intro conjI impI)
  assume "get_prop options ''optimize'' = Bool False \<or> mimetype f = ''image/svg+xml''"
  then have "(if get_prop options ''optimize'' \<noteq> Bool False
            then optimizeImage pf (data f) (mimetype f)
            else Inr (data f)) = Inr (data f)"
    by (auto simp: optimizeImage_svg)
  then show "calls (snd (uploadImage cl pf (Some f) options w))
            = calls w @ [Uploader_upload_stream (upload_params options) (data f)]"
    by (rule uploadImage_calls)
next
  assume a: "files_image req = Some f
       \<and> (get_prop (req_body req) ''optimize'' = Str ''false'' \<or> mimetype f = ''image/svg+xml'')
       \<and> validateFileUpload cfg pf req = Next \<and> validateUploadOptions pf req = Next"
  then have "(if get_prop (upload_options (req_body req)) ''optimize'' \<noteq> Bool False
            then optimizeImage pf (data f) (mimetype f)
            else Inr (data f)) = Inr (data f)"
    by (auto simp: optimizeImage_svg upload_options_optimize)
  then have "calls (snd (uploadImage cl pf (Some f) (upload_options (req_body req)) w))
            = calls w @ [Uploader_upload_stream
                           (upload_params (upload_options (req_body req))) (data f)]"
    by (rule uploadImage_calls)
  with a show "calls (snd (post_upload cfg cl pf req w))
            = calls w @ [Uploader_upload_stream
                           (upload_params (upload_options (req_body req))) (data f)]"
    by (simp add: post_upload_def asyncHandler_world upload_handler_calls)
next
  assume a: "files_image req = Some f
       \<and> (get_prop (req_body req) ''optimize'' = Str ''false'' \<or> mimetype f = ''image/svg+xml'')"
  then have "(if get_prop (upload_options (req_body req)) ''optimize'' \<noteq> Bool False
            then optimizeImage pf (data f) (mimetype f)
            else Inr (data f)) = Inr (data f)"
    by (auto simp: optimizeImage_svg upload_options_optimize)
  then have "calls (snd (uploadImage cl pf (Some f) (upload_options (req_body req)) w))
            = calls w @ [Uploader_upload_stream
                           (upload_params (upload_options (req_body req))) (data f)]"
    by (rule uploadImage_calls)
  with a show "calls (snd (post_upload cfg cl pf req w)) = calls w
          \<or> calls (snd (post_upload cfg cl pf req w))
              = calls w @ [Uploader_upload_stream
                             (upload_params (upload_options (req_body req))) (data f)]"
    by (simp add: post_upload_def asyncHandler_world upload_handler_calls
        split: middleware_result.splits)
qed

theorem unoptimized_upload_keeps_bytes_witness:
  "calls (snd (post_upload default_config memory_provider test_platform
                 (upload_request small_svg []) empty_world))
     = [Uploader_upload_stream (upload_params (upload_options [])) (data small_svg)]
   \<and> calls (snd (post_upload default_config memory_provider test_platform
                 (upload_request good_jpeg [(''optimize'', Str ''false'')]) empty_world))
     = [Uploader_upload_stream (upload_params (upload_options [(''optimize'', Str ''false'')]))
          (data good_jpeg)]
   \<and> calls (snd (uploadImage memory_provider test_platform (Some good_jpeg)
                   [(''optimize'', Bool False)] empty_world))
     = [Uploader_upload_stream (upload_params [(''optimize'', Bool False)]) (data good_jpeg)]"
proof -
  have svg: "files_image (upload_request small_svg []) = Some small_svg
       \<and> (get_prop (req_body (upload_request small_svg [])) ''optimize'' = Str ''false''
           \<or> mimetype small_svg = ''image/svg+xml'')
       \<and> validateFileUpload default_config test_platform (upload_request small_svg []) = Next
       \<and> validateUploadOptions test_platform (upload_request small_svg []) = Next"
    by code_simp
  have off: "files_image (upload_request good_jpeg [(''optimize'', Str ''false'')]) = Some good_jpeg
       \<and> (get_prop (req_body (upload_request good_jpeg [(''optimize'', Str ''false'')]))
             ''optimize'' = Str ''false''
           \<or> mimetype good_jpeg = ''image/svg+xml'')
       \<and> validateFileUpload default_config test_platform
           (upload_request good_jpeg [(''optimize'', Str ''false'')]) = Next
       \<and> validateUploadOptions test_platform
           (upload_request good_jpeg [(''optimize'', Str ''false'')]) = Next"
    by code_simp
  have flag: "get_prop [(''optimize'', Bool False)] ''optimize'' = Bool False"
    by (simp add: get_prop_def)
  from svg unoptimized_upload_keeps_bytes [of "[]" small_svg memory_provider test_platform
      empty_world "upload_request small_svg []" default_config]
  have "calls (snd (post_upload default_config memory_provider test_platform
                 (upload_request small_svg []) empty_world))
     = [Uploader_upload_stream (upload_params (upload_options [])) (data small_svg)]"
    by (simp add: empty_world_def upload_request_def)
  moreover from off unoptimized_upload_keeps_bytes [of "[]" good_jpeg memory_provider
      test_platform empty_world "upload_request good_jpeg [(''optimize'', Str ''false'')]"
      default_config]
  have "calls (snd (post_upload default_config memory_provider test_platform
                 (upload_request good_jpeg [(''optimize'', Str ''false'')]) empty_world))
     = [Uploader_upload_stream (upload_params (upload_options [(''optimize'', Str ''false'')]))
          (data good_jpeg)]"
    by (simp add: empty_world_def upload_request_def)
  moreover from flag unoptimized_upload_keeps_bytes [of "[(''optimize'', Bool False)]" good_jpeg
      memory_provider test_platform empty_world "upload_request small_svg []" default_config]
  have "calls (snd (uploadImage memory_provider test_platform (Some good_jpeg)
                   [(''optimize'', Bool False)] empty_world))
     = [Uploader_upload_stream (upload_params [(''optimize'', Bool False)]) (data good_jpeg)]"
    by (simp add: empty_world_def)
  ultimately show ?thesis by blast
qed

section \<open>Deleting twice\<close>

lemma delete_image_reply:
  assumes "validatePublicId req = Next"
    and "decoded_publicId pf req = Inr publicId"
    and "cl (Uploader_destroy publicId) (provider w) = (Inr result, s')"
    and "get_prop result ''result'' = Str ''ok'' \<or> get_prop result ''result'' = Str ''not found''"
  shows "delete_image cl pf req w =
           (\<lparr> status = 200, body = deleted_body result publicId \<rparr>,
            \<lparr> provider = s', calls = calls w @ [Uploader_destroy publicId] \<rparr>)"
  using assms
  by (auto simp add: delete_image_def delete_image_handler_def deleteImage_def invoke_def
      asyncHandler_def json_def status_json_def deleted_body_def)

text \<open>
  C7. Two deletions of the same identifier, one after the other: whenever the provider
  answers each of them with \<^verbatim>\<open>ok\<close> or with \<^verbatim>\<open>not found\<close>, both responses have status
  200 and \<^verbatim>\<open>success: true\<close>; the message is \<^verbatim>\<open>Image deleted successfully\<close> for \<^verbatim>\<open>ok\<close>
  and \<^verbatim>\<open>Image not found\<close> for \<^verbatim>\<open>not found\<close>.
\<close>

theorem delete_twice_succeeds:
  assumes "validatePublicId req = Next"
    and "decoded_publicId pf req = Inr publicId"
    and "cl (Uploader_destroy publicId) (provider w) = (Inr r1, s1)"
    and "get_prop r1 ''result'' = Str ''ok'' \<or> get_prop r1 ''result'' = Str ''not found''"
    and "cl (Uploader_destroy publicId) s1 = (Inr r2, s2)"
    and "get_prop r2 ''result'' = Str ''ok'' \<or> get_prop r2 ''result'' = Str ''not found''"
  shows "fst (delete_image cl pf req w)
           = \<lparr> status = 200,
               body = Obj [(''success'', Bool True),
                           (''message'',
                              if get_prop r1 ''result'' = Str ''ok''
                              then Str ''Image deleted successfully''
                              else Str ''Image not found''),
                           (''publicId'', Str publicId)] \<rparr>
         \<and> fst (delete_image cl pf req (snd (delete_image cl pf req w)))
           = \<lparr> status = 200,
               body = Obj [(''success'', Bool True),
                           (''message'',
                              if get_prop r2 ''result'' = Str ''ok''
                              then Str ''Image deleted successfully''
                              else Str ''Image not found''),
                           (''publicId'', Str publicId)] \<rparr>"
proof -
  let ?w1 = "\<lparr> provider = s1, calls = calls w @ [Uploader_destroy publicId] \<rparr>"
  have one: "delete_image cl pf req w = (\<lparr> status = 200, body = deleted_body r1 publicId \<rparr>, ?w1)"
    using assms(1-4) by (rule delete_image_reply)
  have "cl (Uploader_destroy publicId) (provider ?w1) = (Inr r2, s2)"
    using assms(5) by simp
  with assms(1,2) have "delete_image cl pf req ?w1 =
           (\<lparr> status = 200, body = deleted_body r2 publicId \<rparr>,
            \<lparr> provider = s2, calls = calls ?w1 @ [Uploader_destroy publicId] \<rparr>)"
    using assms(6) by (rule delete_image_reply)
  with one show ?thesis by (simp add: deleted_body_def)
qed

theorem delete_twice_succeeds_witness:
  "fst (delete_image memory_provider test_platform (request_for ''a'')
          \<lparr> provider = [''a''], calls = [] \<rparr>)
     = \<lparr> status = 200,
         body = Obj [(''success'', Bool True), (''message'', Str ''Image deleted successfully''),
                     (''publicId'', Str ''a'')] \<rparr>
   \<and> fst (delete_image memory_provider test_platform (request_for ''a'')
            (snd (delete_image memory_provider test_platform (request_for ''a'')
                    \<lparr> provider = [''a''], calls = [] \<rparr>)))
     = \<lparr> status = 200,
         body = Obj [(''success'', Bool True), (''message'', Str ''Image not found''),
                     (''publicId'', Str ''a'')] \<rparr>"
proof -
  have v: "validatePublicId (request_for ''a'') = Next"
    by code_simp
  have d: "decoded_publicId test_platform (request_for ''a'') = Inr ''a''"
    by (simp add: decoded_publicId_def test_platform_def request_for_def)
  have first: "memory_provider (Uploader_destroy ''a'')
                 (provider \<lparr> provider = [''a''], calls = [] \<rparr>)
               = (Inr [(''result'', Str ''ok'')], [])"
    by simp
  have second: "memory_provider (Uploader_destroy ''a'') [] = (Inr [(''result'', Str ''not found'')], [])"
    by simp
  have r1: "get_prop [(''result'', Str ''ok'')] ''result'' = Str ''ok''
            \<or> get_prop [(''result'', Str ''ok'')] ''result'' = Str ''not found''"
    by (simp add: get_prop_def)
  have r2: "get_prop [(''result'', Str ''not found'')] ''result'' = Str ''ok''
            \<or> get_prop [(''result'', Str ''not found'')] ''result'' = Str ''not found''"
    by (simp add: get_prop_def)
  from v d first r1 second r2
    delete_twice_succeeds [where req = "request_for ''a''" and pf = test_platform
      and publicId = "''a''" and cl = memory_provider
      and w = "\<lparr> provider = [''a''], calls = [] \<rparr>"
      and ?r1.0 = "[(''result'', Str ''ok'')]" and ?s1.0 = "[]"
      and ?r2.0 = "[(''result'', Str ''not found'')]" and ?s2.0 = "[]"]
  show ?thesis
    by (simp add: get_prop_def)
qed

section \<open>Uploads over the size limit\<close>

lemma fileUpload_aborts:
  assumes "file_parts r = Some parts" and "p \<in> set parts" and "over_limit cfg p"
  shows "fileUpload cfg r
           = Aborted \<lparr> status = 413, body = Str ''File size limit has been reached'' \<rparr>"
  using assms by (auto simp: fileUpload_def list_ex_iff)

lemma fileUpload_sizes:
  assumes "fileUpload cfg r = Parsed req" and "files_image req = Some f"
    and "0 \<le> maxFileSize cfg"
  shows "size_file f \<le> maxFileSize cfg"
proof -
  from assms(1,2) obtain parts where parts: "file_parts r = Some parts"
      "\<not> list_ex (over_limit cfg) parts"
      "map_of (map (\<lambda>p. (fieldname p, file_of_part p)) parts) ''image'' = Some f"
    by (auto simp: fileUpload_def files_image_def split: option.splits if_splits)
  from parts(3) obtain p where p: "p \<in> set parts" "f = file_of_part p"
    by (auto dest!: map_of_SomeD)
  with parts(2) have "\<not> over_limit cfg p"
    by (simp add: list_ex_iff)
  with p(2) assms(3) show ?thesis
    by (auto simp: over_limit_def file_of_part_def)
qed

text \<open>
  C8, as the code has it. With a configured maximum that is not negative, an upload
  that carries a file larger than the maximum is answered with status 413 by the
  upload middleware of \<^verbatim>\<open>server.js\<close>, before the route, and the world is left as it
  was: no call of the provider is made. The size test of \<^verbatim>\<open>validateFileUpload\<close>, which
  would answer 400, is never the one that answers: every file that the middleware
  hands on is within the maximum.
\<close>

theorem oversized_upload_aborted:
  assumes "0 \<le> maxFileSize cfg"
  shows "(file_parts r = Some parts \<and> p \<in> set parts
            \<and> int (length (part_data p)) > maxFileSize cfg
          \<longrightarrow> post_api_images_upload cfg cl pf r w
                = (\<lparr> status = 413, body = Str ''File size limit has been reached'' \<rparr>, w))
         \<and> (fileUpload cfg r = Parsed req \<and> files_image req = Some f
          \<longrightarrow> size_file f \<le> maxFileSize cfg)"
proof (intro conjI impI)
  assume a: "file_parts r = Some parts \<and> p \<in> set parts
            \<and> int (length (part_data p)) > maxFileSize cfg"
  with assms have "over_limit cfg p"
    by (auto simp: over_limit_def)
  with a have "fileUpload cfg r
      = Aborted \<lparr> status = 413, body = Str ''File size limit has been reached'' \<rparr>"
    using fileUpload_aborts by blast
  then show "post_api_images_upload cfg cl pf r w
                = (\<lparr> status = 413, body = Str ''File size limit has been reached'' \<rparr>, w)"
    by (simp add: post_api_images_upload_def)
next
  assume "fileUpload cfg r = Parsed req \<and> files_image req = Some f"
  with assms show "size_file f \<le> maxFileSize cfg"
    using fileUpload_sizes by blast
qed

theorem oversized_upload_aborted_witness:
  "post_api_images_upload three_byte_config memory_provider test_platform four_byte_upload
     empty_world
     = (\<lparr> status = 413, body = Str ''File size limit has been reached'' \<rparr>, empty_world)
   \<and> (4::int) \<le> maxFileSize default_config"
proof -
  let ?p = "\<lparr> fieldname = ''image'', filename = ''photo.jpg'',
              part_mimetype = ''image/jpeg'', part_data = [0xFF, 0xD8, 0x10, 0x20] \<rparr>"
  let ?f = "file_of_part ?p"
  let ?req = "\<lparr> req_files = Some [(''image'', ?f)], req_body = [], req_params = [] \<rparr>"
  have small: "0 \<le> maxFileSize three_byte_config"
    by (simp add: three_byte_config_def)
  have over: "file_parts four_byte_upload = Some [?p] \<and> ?p \<in> set [?p]
            \<and> int (length (part_data ?p)) > maxFileSize three_byte_config"
    by (simp add: four_byte_upload_def three_byte_config_def)
  have big: "0 \<le> maxFileSize default_config"
    by (simp add: default_config_def)
  have passed: "fileUpload default_config four_byte_upload = Parsed ?req
            \<and> files_image ?req = Some ?f"
    by (simp add: fileUpload_def four_byte_upload_def over_limit_def default_config_def
        files_image_def)
  from over oversized_upload_aborted [OF small, of four_byte_upload "[?p]" ?p memory_provider
      test_platform empty_world]
  have "post_api_images_upload three_byte_config memory_provider test_platform four_byte_upload
     empty_world
     = (\<lparr> status = 413, body = Str ''File size limit has been reached'' \<rparr>, empty_world)"
    by blast
  moreover from passed oversized_upload_aborted [OF big, of four_byte_upload "[?p]" ?p
      memory_provider test_platform empty_world ?req ?f]
  have "size_file ?f \<le> maxFileSize default_config"
    by blast
  then have "(4::int) \<le> maxFileSize default_config"
    by (simp add: file_of_part_def)
  ultimately show ?thesis by blast
qed

text \<open>
  The claim as worded fails: with \<^verbatim>\<open>MAX_FILE_SIZE=3\<close>, an upload of a file of four bytes
  is answered with status 413, not 400.
\<close>

theorem oversized_upload_counterexample:
  "file_parts four_byte_upload
     = Some [\<lparr> fieldname = ''image'', filename = ''photo.jpg'',
                part_mimetype = ''image/jpeg'', part_data = [0xFF, 0xD8, 0x10, 0x20] \<rparr>]
   \<and> maxFileSize three_byte_config = 3
   \<and> status (fst (post_api_images_upload three_byte_config memory_provider test_platform
                     four_byte_upload empty_world)) = 413"
  by code_simp

section \<open>The optimize flag of the upload route\<close>

lemma upload_options_schema_optimize:
  assumes "get_prop b ''optimize'' = Str s"
    and "toLowerCase s \<noteq> ''true''" and "toLowerCase s \<noteq> ''false''"
  shows "joi_object_validate upload_options_schema b \<noteq> None"
  using assms
  by (simp add: joi_object_validate_def upload_options_schema_def first_error_None)

lemma upload_handler_buffer:
  assumes "files_image req = Some f" and "optimizeImage pf (data f) (mimetype f) = Inr optimized"
  shows "calls (snd (upload_handler cl pf req w))
           = calls w @ [Uploader_upload_stream (upload_params (upload_options (req_body req)))
                          (if get_prop (req_body req) ''optimize'' = Str ''false''
                           then data f else optimized)]"
proof -
  from assms have "(if get_prop (upload_options (req_body req)) ''optimize'' \<noteq> Bool False
            then optimizeImage pf (data f) (mimetype f)
            else Inr (data f))
          = Inr (if get_prop (req_body req) ''optimize'' = Str ''false''
                 then data f else optimized)"
    by (simp add: upload_options_optimize)
  then have "calls (snd (uploadImage cl pf (Some f) (upload_options (req_body req)) w))
           = calls w @ [Uploader_upload_stream (upload_params (upload_options (req_body req)))
                          (if get_prop (req_body req) ''optimize'' = Str ''false''
                           then data f else optimized)]"
    by (rule uploadImage_calls)
  with assms(1) show ?thesis
    by (simp add: upload_handler_calls)
qed

text \<open>
  C9, as the code has it. In the upload route, a request that both validators hand on
  is uploaded without optimization exactly when the form field \<^verbatim>\<open>optimize\<close> is the
  string \<^verbatim>\<open>false\<close>: then the bytes of the file go to the provider as they came. Without
  the field, or with any other value that the validator of the options takes (a
  boolean in another letter case, such as \<^verbatim>\<open>False\<close>), what \<^verbatim>\<open>optimizeImage\<close> returned is
  uploaded. A string that spells neither \<^verbatim>\<open>true\<close> nor \<^verbatim>\<open>false\<close> (such as \<^verbatim>\<open>0\<close> or \<^verbatim>\<open>no\<close>)
  is answered with 400 by that validator, and nothing is uploaded.
\<close>

theorem optimize_flag_in_route:
  assumes "files_image req = Some f" and "validateFileUpload cfg pf req = Next"
  shows "(validateUploadOptions pf req = Next
            \<and> optimizeImage pf (data f) (mimetype f) = Inr optimized
          \<longrightarrow> calls (snd (post_upload cfg cl pf req w))
                = calls w @ [Uploader_upload_stream
                               (upload_params (upload_options (req_body req)))
                               (if get_prop (req_body req) ''optimize'' = Str ''false''
                                then data f else optimized)])
         \<and> (get_prop (req_body req) ''optimize'' = Str s
            \<and> toLowerCase s \<noteq> ''true'' \<and> toLowerCase s \<noteq> ''false''
          \<longrightarrow> status (fst (post_upload cfg cl pf req w)) = 400
              \<and> snd (post_upload cfg cl pf req w) = w)"
proof (intro conjI impI)
  assume a: "validateUploadOptions pf req = Next
            \<and> optimizeImage pf (data f) (mimetype f) = Inr optimized"
  with assms(1) have "calls (snd (upload_handler cl pf req w))
           = calls w @ [Uploader_upload_stream (upload_params (upload_options (req_body req)))
                          (if get_prop (req_body req) ''optimize'' = Str ''false''
                           then data f else optimized)]"
    using upload_handler_buffer by blast
  with a assms(2) show "calls (snd (post_upload cfg cl pf req w))
                = calls w @ [Uploader_upload_stream
                               (upload_params (upload_options (req_body req)))
                               (if get_prop (req_body req) ''optimize'' = Str ''false''
                                then data f else optimized)]"
    by (simp add: post_upload_def asyncHandler_world)
next
  assume "get_prop (req_body req) ''optimize'' = Str s
            \<and> toLowerCase s \<noteq> ''true'' \<and> toLowerCase s \<noteq> ''false''"
  then obtain e where e: "joi_object_validate upload_options_schema (req_body req) = Some e"
    using upload_options_schema_optimize [of "req_body req" s] by auto
  with assms(2) show "status (fst (post_upload cfg cl pf req w)) = 400"
    by (simp add: post_upload_def validateUploadOptions_def status_json_def)
  from e assms(2) show "snd (post_upload cfg cl pf req w) = w"
    by (simp add: post_upload_def validateUploadOptions_def)
qed

lemma toLowerCase_0: "toLowerCase ''0'' = ''0''"
  by code_simp

theorem optimize_flag_in_route_witness:
  "calls (snd (post_upload default_config memory_provider test_platform
                 (upload_request good_jpeg [(''optimize'', Str ''False'')]) empty_world))
     = [Uploader_upload_stream (upload_params (upload_options [(''optimize'', Str ''False'')]))
          [0xFF, 0xD8]]
   \<and> calls (snd (post_upload default_config memory_provider test_platform
                 (upload_request good_jpeg [(''optimize'', Str ''false'')]) empty_world))
     = [Uploader_upload_stream (upload_params (upload_options [(''optimize'', Str ''false'')]))
          [0xFF, 0xD8, 0x10, 0x20]]
   \<and> calls (snd (post_upload default_config memory_provider test_platform
                 (upload_request good_jpeg []) empty_world))
     = [Uploader_upload_stream (upload_params (upload_options [])) [0xFF, 0xD8]]
   \<and> status (fst (post_upload default_config memory_provider test_platform
                 (upload_request good_jpeg [(''optimize'', Str ''0'')]) empty_world)) = 400
   \<and> snd (post_upload default_config memory_provider test_platform
                 (upload_request good_jpeg [(''optimize'', Str ''0'')]) empty_world)
       = empty_world"
proof -
  have opt: "optimizeImage test_platform (data good_jpeg) (mimetype good_jpeg) = Inr [0xFF, 0xD8]"
    by (simp add: optimizeImage_def optimizeImage_try_def test_platform_def good_jpeg_def
        greater_than_def Let_def)
  have has_file: "files_image (upload_request good_jpeg b) = Some good_jpeg" for b
    by (simp add: files_image_def upload_request_def)
  have file_ok: "validateFileUpload default_config test_platform (upload_request good_jpeg b) = Next"
    for b
    unfolding validateFileUpload_cases [OF has_file]
    by (simp add: good_jpeg_def default_config_def validMimetypes_def toLowerCase_jpg)
  have ok1: "validateUploadOptions test_platform
               (upload_request good_jpeg [(''optimize'', Str ''False'')]) = Next"
    by code_simp
  have ok2: "validateUploadOptions test_platform
               (upload_request good_jpeg [(''optimize'', Str ''false'')]) = Next"
    by code_simp
  have ok3: "validateUploadOptions test_platform (upload_request good_jpeg []) = Next"
    by code_simp
  have bad: "get_prop (req_body (upload_request good_jpeg [(''optimize'', Str ''0'')])) ''optimize''
               = Str ''0''
             \<and> toLowerCase ''0'' \<noteq> ''true'' \<and> toLowerCase ''0'' \<noteq> ''false''"
    by (simp add: upload_request_def get_prop_def toLowerCase_0)
  from ok1 opt has_file file_ok optimize_flag_in_route [where req = "upload_request good_jpeg [(''optimize'', Str ''False'')]" and f = good_jpeg
      and cfg = default_config and pf = test_platform and optimized = "[0xFF, 0xD8]"
      and cl = memory_provider and w = empty_world]
  have "calls (snd (post_upload default_config memory_provider test_platform
                 (upload_request good_jpeg [(''optimize'', Str ''False'')]) empty_world))
     = [Uploader_upload_stream (upload_params (upload_options [(''optimize'', Str ''False'')]))
          [0xFF, 0xD8]]"
    by (simp add: upload_request_def get_prop_def empty_world_def)
  moreover
  from ok2 opt has_file file_ok optimize_flag_in_route [where req = "upload_request good_jpeg [(''optimize'', Str ''false'')]" and f = good_jpeg
      and cfg = default_config and pf = test_platform and optimized = "[0xFF, 0xD8]"
      and cl = memory_provider and w = empty_world]
  have "calls (snd (post_upload default_config memory_provider test_platform
                 (upload_request good_jpeg [(''optimize'', Str ''false'')]) empty_world))
     = [Uploader_upload_stream (upload_params (upload_options [(''optimize'', Str ''false'')]))
          [0xFF, 0xD8, 0x10, 0x20]]"
    by (simp add: upload_request_def get_prop_def empty_world_def good_jpeg_def)
  moreover
  from ok3 opt has_file file_ok optimize_flag_in_route [where req = "upload_request good_jpeg []" and f = good_jpeg
      and cfg = default_config and pf = test_platform and optimized = "[0xFF, 0xD8]"
      and cl = memory_provider and w = empty_world]
  have "calls (snd (post_upload default_config memory_provider test_platform
                 (upload_request good_jpeg []) empty_world))
     = [Uploader_upload_stream (upload_params (upload_options [])) [0xFF, 0xD8]]"
    by (simp add: upload_request_def get_prop_def empty_world_def)
  moreover
  from bad has_file file_ok optimize_flag_in_route [where req = "upload_request good_jpeg [(''optimize'', Str ''0'')]" and f = good_jpeg
      and cfg = default_config and pf = test_platform and optimized = "[0xFF, 0xD8]"
      and cl = memory_provider and w = empty_world and s = "''0''"]
  have "status (fst (post_upload default_config memory_provider test_platform
                 (upload_request good_jpeg [(''optimize'', Str ''0'')]) empty_world)) = 400
   \<and> snd (post_upload default_config memory_provider test_platform
                 (upload_request good_jpeg [(''optimize'', Str ''0'')]) empty_world)
       = empty_world"
    by blast
  ultimately show ?thesis by blast
qed

text \<open>
  The claim as worded fails at its own example: with the field \<^verbatim>\<open>0\<close>, which is not
  the string \<^verbatim>\<open>false\<close>, the route answers 400 and makes no call of the provider, so
  no optimized image is uploaded.
\<close>

theorem optimize_flag_counterexample:
  "get_prop (req_body (upload_request good_jpeg [(''optimize'', Str ''0'')])) ''optimize''
     \<noteq> Str ''false''
   \<and> validateFileUpload default_config test_platform
        (upload_request good_jpeg [(''optimize'', Str ''0'')]) = Next
   \<and> status (fst (post_upload default_config memory_provider test_platform
                    (upload_request good_jpeg [(''optimize'', Str ''0'')]) empty_world)) = 400
   \<and> calls (snd (post_upload default_config memory_provider test_platform
                    (upload_request good_jpeg [(''optimize'', Str ''0'')]) empty_world)) = []"
  by code_simp

end
